theory Spec2Isabelle
  imports Complex_Main "HOL-Library.Log_Nat"
begin

section \<open>JavaScript numbers\<close>

text \<open>
  A JavaScript Number is an IEEE 754 binary64 value. A finite one is modelled by the
  rational it denotes, the result of an operation by rounding the exact result to the
  nearest binary64 value, ties to the even significand. The sign of zero is not
  tracked: \<open>-0\<close> and \<open>0\<close> are one value \<open>Finite 0\<close> (they are equal under
  \<open>===\<close>, and the code below never divides).
\<close>

datatype jsnum = Finite rat | PosInf | NegInf | NaN

definition ilog2 :: "rat \<Rightarrow> int" where
  \<comment> \<open>\<open>\<lfloor>log\<^sub>2 q\<rfloor>\<close> of a positive rational, from the bit lengths of its numerator and
      denominator\<close>
  "ilog2 q = (case quotient_of q of (a, b) \<Rightarrow>
      (let d = bitlen a - bitlen b in if 2 powi d \<le> q then d else d - 1))"

definition round_half_even :: "rat \<Rightarrow> int" where
  "round_half_even x =
     (let n = \<lfloor>x\<rfloor>; r = x - of_int n
      in if r < 1 / 2 then n else if 1 / 2 < r then n + 1 else if even n then n else n + 1)"

definition binary64 :: "rat \<Rightarrow> jsnum" where
  \<comment> \<open>the Number value of an exact result \<open>q\<close>: the multiple \<open>m * 2\<^sup>e\<^sup>-\<^sup>5\<^sup>2\<close> nearest to
      \<open>\<bar>q\<bar>\<close>, where \<open>e\<close> is the exponent of \<open>\<bar>q\<bar>\<close>, at least \<open>-1022\<close> (subnormals below);
      infinity when the result would need an exponent above \<open>1023\<close>\<close>
  "binary64 q =
     (if q = 0 then Finite 0
      else let e = max (ilog2 \<bar>q\<bar>) (- 1022);
               u = 2 powi (e - 52);
               m = round_half_even (\<bar>q\<bar> / u)
           in if 1023 < e \<or> (e = 1023 \<and> m = 2 ^ 53)
              then (if 0 < q then PosInf else NegInf)
              else Finite (if 0 < q then of_int m * u else - (of_int m * u)))"

definition js_sign :: "jsnum \<Rightarrow> int" where
  "js_sign x = (case x of Finite q \<Rightarrow> (if 0 < q then 1 else if q < 0 then - 1 else 0)
                | PosInf \<Rightarrow> 1 | NegInf \<Rightarrow> - 1 | NaN \<Rightarrow> 0)"

fun js_add :: "jsnum \<Rightarrow> jsnum \<Rightarrow> jsnum" where
  \<comment> \<open>the operator \<open>+\<close> on two Numbers\<close>
  "js_add (Finite a) (Finite b) = binary64 (a + b)"
| "js_add NaN y = NaN"
| "js_add x NaN = NaN"
| "js_add PosInf NegInf = NaN"
| "js_add NegInf PosInf = NaN"
| "js_add PosInf y = PosInf"
| "js_add x PosInf = PosInf"
| "js_add NegInf y = NegInf"
| "js_add x NegInf = NegInf"

fun js_mul :: "jsnum \<Rightarrow> jsnum \<Rightarrow> jsnum" where
  \<comment> \<open>the operator \<open>*\<close> on two Numbers\<close>
  "js_mul (Finite a) (Finite b) = binary64 (a * b)"
| "js_mul NaN y = NaN"
| "js_mul x NaN = NaN"
| "js_mul x y =
     (let s = js_sign x * js_sign y
      in if s = 0 then NaN else if 0 < s then PosInf else NegInf)"

text \<open>
  \<open>Number.prototype.toFixed(2)\<close> (ECMA-262): a value that is not finite, or whose
  magnitude is at least \<open>10\<^sup>2\<^sup>1\<close>, is printed as \<open>ToString\<close> prints it; any other
  value \<open>x\<close> is printed as a sign and the integer \<open>n\<close> for which \<open>n / 100 - \<bar>x\<bar>\<close> is
  as close to zero as possible, the larger \<open>n\<close> if there are two, with a point before
  its last two digits. \<open>Fixed neg n\<close> is that decimal, \<open>Verbatim x\<close> the \<open>ToString\<close> form.
\<close>

datatype fixed = Fixed bool int | Verbatim jsnum

definition toFixed2 :: "jsnum \<Rightarrow> fixed" where
  "toFixed2 x =
     (case x of
        Finite q \<Rightarrow>
          if 10 ^ 21 \<le> \<bar>q\<bar> then Verbatim x
          else Fixed (q < 0) \<lfloor>\<bar>q\<bar> * 100 + 1 / 2\<rfloor>
      | _ \<Rightarrow> Verbatim x)"

definition parseFloat :: "fixed \<Rightarrow> jsnum" where
  \<comment> \<open>\<open>parseFloat\<close> on the output of \<open>toFixed\<close>: the nearest Number to the decimal;
      \<open>ToString\<close> output reads back as the Number it was printed from\<close>
  "parseFloat s =
     (case s of
        Fixed neg n \<Rightarrow> binary64 ((if neg then - 1 else 1) * of_int n / 100)
      | Verbatim x \<Rightarrow> x)"

definition round2 :: "jsnum \<Rightarrow> jsnum" where
  \<comment> \<open>\<open>parseFloat(x.toFixed(2))\<close>\<close>
  "round2 x = parseFloat (toFixed2 x)"

definition digit :: "nat \<Rightarrow> char" where
  "digit d = ''0123456789'' ! d"

fun decimal :: "nat \<Rightarrow> string" where
  "decimal n = (if n < 10 then [digit n] else decimal (n div 10) @ [digit (n mod 10)])"

declare decimal.simps [simp del]

definition render :: "bool \<Rightarrow> int \<Rightarrow> string" where
  \<comment> \<open>the characters of \<open>Fixed neg n\<close>\<close>
  "render neg n =
     (if neg then ''-'' else []) @ decimal (nat (n div 100)) @ ''.'' @
     [digit (nat (n mod 100 div 10)), digit (nat (n mod 10))]"

section \<open>Batches page: status and revenue shares\<close>

text \<open>
  \<open>getBatchStatus\<close> of \<open>Batches.tsx\<close>. \<open>new Date(s)\<close> has a time value (milliseconds
  since the epoch) or is an Invalid Date, whose time value is \<open>NaN\<close>: \<open>None\<close> here. How
  a string is read as a date is left to the parameter \<open>parseDate\<close>; \<open>now\<close> is the time
  value of \<open>new Date()\<close>, always valid. Dates are compared through their time values, and
  a comparison with \<open>NaN\<close> is false.
\<close>

type_synonym timevalue = "int option"

definition js_lt :: "timevalue \<Rightarrow> timevalue \<Rightarrow> bool" where
  "js_lt a b = (case (a, b) of (Some x, Some y) \<Rightarrow> x < y | _ \<Rightarrow> False)"

definition getBatchStatus :: "(string \<Rightarrow> timevalue) \<Rightarrow> int \<Rightarrow> string \<Rightarrow> string \<Rightarrow> string" where
  "getBatchStatus parseDate now startDate endDate =
     (let start = parseDate startDate;
          end' = parseDate endDate
      in if js_lt (Some now) start then ''upcoming''
         else if js_lt end' (Some now) then ''completed''
         else ''ongoing'')"

text \<open>
  The two share cells of a batch row:
  \<open>(batch.revenue * 0.2).toFixed(2)\<close> and \<open>(batch.revenue * 0.3).toFixed(2)\<close>.
\<close>

definition teacherShare :: "jsnum \<Rightarrow> fixed" where
  "teacherShare revenue = toFixed2 (js_mul revenue (binary64 (2 / 10)))"

definition platformShare :: "jsnum \<Rightarrow> fixed" where
  "platformShare revenue = toFixed2 (js_mul revenue (binary64 (3 / 10)))"

section \<open>The record store\<close>

text \<open>
  The four Mongoose models of \<open>teachers.route.js\<close> as lists of documents, in storage
  order. An \<open>ObjectId\<close> is an identifier compared for equality only. A field of a
  document that may be absent is an option. \<open>profile\<close> stands for the fields of a
  student the routes never read.
\<close>

type_synonym objectid = nat

record teacher =
  teacher_id :: objectid
  name :: string
  email :: string
  phone :: string
  specialization :: "string option"
  status :: string
  password :: string
  role :: string
  totalEarnings :: jsnum

record batch =
  batch_id :: objectid
  batchName :: string
  teacher :: "objectid option"
  startDate :: string
  endDate :: string
  scheduleDays :: "string list"
  sessionTime :: string
  sessionTopic :: "string list"
  totalStudents :: nat
  revenue :: jsnum

record student =
  student_id :: objectid
  teachers :: "objectid list"
  profile :: "(string \<times> string) list"

record sale =
  sale_id :: objectid
  student :: objectid
  amount :: jsnum
  sale_status :: string

record database =
  Teacher :: "teacher list"
  Batch :: "batch list"
  Student :: "student list"
  Sales :: "sale list"

text \<open>
  What a handler cannot decide from the store is a parameter: how the driver reads a
  string as an \<open>ObjectId\<close> (\<open>mongoose.Types.ObjectId.isValid\<close> holds where it reads
  one), which awaited call throws, what \<open>bcrypt\<close> returns, the identifier and the
  schema default of \<open>totalEarnings\<close> a new document gets. A call that throws leaves the
  store as it was before the call.
\<close>

datatype call =
    ListFind | ListStudentFind objectid | ListSalesFind objectid | ListSave objectid
  | ListFindAgain
  | GetFindById
  | PutFindOne | PutFindByIdAndUpdate
  | PostFindOne | PostGenSalt | PostHash | PostSave
  | DeleteFindByIdAndDelete | DeleteBatchUpdateMany | DeleteStudentUpdateMany

record env =
  castObjectId :: "string \<Rightarrow> objectid option"
  throws :: "call \<Rightarrow> bool"
  genSalt :: string
  hash :: "string \<Rightarrow> string \<Rightarrow> string"
  newObjectId :: objectid
  defaultTotalEarnings :: jsnum

datatype payload =
    TeacherList "teacher list"
  | TeacherDoc teacher
  | Message string
  | ErrorMessage string

datatype response = Response nat payload

fun status_code :: "response \<Rightarrow> nat" where
  "status_code (Response c p) = c"

fun json :: "response \<Rightarrow> payload" where
  "json (Response c p) = p"

definition truthy :: "string option \<Rightarrow> bool" where
  \<comment> \<open>a body field that is present and not the empty string\<close>
  "truthy v = (case v of None \<Rightarrow> False | Some s \<Rightarrow> s \<noteq> [])"

section \<open>GET /api/teachers\<close>

definition studentsOf :: "database \<Rightarrow> objectid \<Rightarrow> student list" where
  \<comment> \<open>\<open>Student.find({ teachers: teacher._id })\<close>\<close>
  "studentsOf db i = filter (\<lambda>s. i \<in> set (teachers s)) (Student db)"

definition completedSales :: "database \<Rightarrow> objectid list \<Rightarrow> sale list" where
  \<comment> \<open>\<open>Sales.find({ student: { $in: studentIds }, status: 'completed' })\<close>\<close>
  "completedSales db studentIds =
     filter (\<lambda>s. student s \<in> set studentIds \<and> sale_status s = ''completed'') (Sales db)"

definition sumAmounts :: "sale list \<Rightarrow> jsnum" where
  \<comment> \<open>\<open>sales.reduce((sum, sale) => sum + sale.amount, 0)\<close>\<close>
  "sumAmounts sales = foldl (\<lambda>sum s. js_add sum (amount s)) (Finite 0) sales"

definition earnings :: "database \<Rightarrow> objectid \<Rightarrow> jsnum" where
  \<comment> \<open>lines 24 to 37: the value assigned to \<open>teacher.totalEarnings\<close>\<close>
  "earnings db i =
     (let students = studentsOf db i;
          studentIds = map student_id students;
          sales = completedSales db studentIds;
          total = sumAmounts sales
      in round2 (js_mul total (binary64 (3 / 10))))"

fun updateOne :: "objectid \<Rightarrow> (teacher \<Rightarrow> teacher) \<Rightarrow> teacher list \<Rightarrow> teacher list" where
  \<comment> \<open>the first document with this \<open>_id\<close> is written\<close>
  "updateOne i f [] = []"
| "updateOne i f (d # ds) = (if teacher_id d = i then f d # ds else d # updateOne i f ds)"

definition save :: "teacher \<Rightarrow> database \<Rightarrow> database" where
  \<comment> \<open>\<open>teacher.save()\<close> of a loaded document whose \<open>totalEarnings\<close> was assigned\<close>
  "save t db =
     db\<lparr>Teacher := updateOne (teacher_id t) (\<lambda>d. d\<lparr>totalEarnings := totalEarnings t\<rparr>)
                     (Teacher db)\<rparr>"

fun recompute :: "env \<Rightarrow> teacher list \<Rightarrow> database \<Rightarrow> bool \<times> database" where
  \<comment> \<open>the \<open>for\<close> loop; \<open>False\<close> when an awaited call threw, with the store as it then is\<close>
  "recompute E [] db = (True, db)"
| "recompute E (t # ts) db =
     (if throws E (ListStudentFind (teacher_id t)) then (False, db)
      else if throws E (ListSalesFind (teacher_id t)) then (False, db)
      else let t' = t\<lparr>totalEarnings := earnings db (teacher_id t)\<rparr>
           in if throws E (ListSave (teacher_id t)) then (False, db)
              else recompute E ts (save t' db))"

definition listTeachers :: "env \<Rightarrow> database \<Rightarrow> response \<times> database" where
  "listTeachers E db =
     (if throws E ListFind then (Response 500 (Message ''Failed to fetch teachers''), db)
      else case recompute E (Teacher db) db of
             (False, db') \<Rightarrow> (Response 500 (Message ''Failed to fetch teachers''), db')
           | (True, db') \<Rightarrow>
               if throws E ListFindAgain
               then (Response 500 (Message ''Failed to fetch teachers''), db')
               else (Response 200 (TeacherList (Teacher db')), db'))"

section \<open>GET, PUT, POST and DELETE of one teacher\<close>

text \<open>
  \<open>req.body\<close> of the two writing requests: each field is a string or absent. The route
  \<open>/dashboard\<close> hands the request to a controller outside this file and is not
  modelled.
\<close>

record request_body =
  req_name :: "string option"
  req_email :: "string option"
  req_phone :: "string option"
  req_specialization :: "string option"
  req_status :: "string option"
  req_password :: "string option"

definition str :: "string option \<Rightarrow> string" where
  "str v = (case v of None \<Rightarrow> [] | Some s \<Rightarrow> s)"

definition findById :: "objectid \<Rightarrow> teacher list \<Rightarrow> teacher option" where
  "findById i ds = find (\<lambda>t. teacher_id t = i) ds"

definition getTeacher :: "env \<Rightarrow> database \<Rightarrow> string \<Rightarrow> response \<times> database" where
  "getTeacher E db teacherId =
     (case castObjectId E teacherId of
        None \<Rightarrow> (Response 400 (ErrorMessage ''Invalid Teacher ID''), db)
      | Some i \<Rightarrow>
          if throws E GetFindById then (Response 500 (ErrorMessage ''Server Error''), db)
          else case findById i (Teacher db) of
                 None \<Rightarrow> (Response 404 (ErrorMessage ''Teacher not found''), db)
               | Some t \<Rightarrow> (Response 200 (TeacherDoc t), db))"



definition postTeacher :: "env \<Rightarrow> database \<Rightarrow> request_body \<Rightarrow> response \<times> database" where
  "postTeacher E db b =
     (if \<not> truthy (req_name b) \<or> \<not> truthy (req_email b) \<or> \<not> truthy (req_phone b) \<or>
         \<not> truthy (req_password b)
      then (Response 400 (Message ''Name, email, phone, and password are required.''), db)
      else if throws E PostFindOne
      then (Response 500 (Message ''Internal server error''), db)
      else if find (\<lambda>t. email t = str (req_email b)) (Teacher db) \<noteq> None
      then (Response 400 (Message ''Teacher with this email already exists''), db)
      else if throws E PostGenSalt \<or> throws E PostHash
      then (Response 500 (Message ''Internal server error''), db)
      else let newTeacher =
                 \<lparr>teacher_id = newObjectId E,
                  name = str (req_name b),
                  email = str (req_email b),
                  phone = str (req_phone b),
                  specialization = req_specialization b,
                  status = (if truthy (req_status b) then str (req_status b) else ''active''),
                  password = hash E (str (req_password b)) (genSalt E),
                  role = ''Teacher'',
                  totalEarnings = defaultTotalEarnings E\<rparr>
           in if throws E PostSave
              then (Response 500 (Message ''Internal server error''), db)
              else (Response 201 (TeacherDoc newTeacher),
                    db\<lparr>Teacher := Teacher db @ [newTeacher]\<rparr>))"

fun deleteOne :: "objectid \<Rightarrow> teacher list \<Rightarrow> teacher list" where
  \<comment> \<open>the first document with this \<open>_id\<close> is removed\<close>
  "deleteOne i [] = []"
| "deleteOne i (d # ds) = (if teacher_id d = i then ds else d # deleteOne i ds)"

definition unsetTeacher :: "objectid \<Rightarrow> batch \<Rightarrow> batch" where
  \<comment> \<open>\<open>Batch.updateMany({ teacher: id }, { $unset: { teacher: "" } })\<close> on one batch\<close>
  "unsetTeacher i b = (if teacher b = Some i then b\<lparr>teacher := None\<rparr> else b)"

definition pullTeacher :: "objectid \<Rightarrow> student \<Rightarrow> student" where
  \<comment> \<open>\<open>Student.updateMany({ teachers: id }, { $pull: { teachers: id } })\<close> on one student\<close>
  "pullTeacher i s =
     (if i \<in> set (teachers s) then s\<lparr>teachers := removeAll i (teachers s)\<rparr> else s)"

definition deleteTeacher :: "env \<Rightarrow> database \<Rightarrow> string \<Rightarrow> response \<times> database" where
  "deleteTeacher E db ident =
     (case castObjectId E ident of
        None \<Rightarrow> (Response 400 (ErrorMessage ''Invalid Teacher ID''), db)
      | Some i \<Rightarrow>
          if throws E DeleteFindByIdAndDelete
          then (Response 500 (ErrorMessage ''Server Error''), db)
          else case findById i (Teacher db) of
                 None \<Rightarrow> (Response 404 (ErrorMessage ''Teacher not found''), db)
               | Some deletedTeacher \<Rightarrow>
                   let db1 = db\<lparr>Teacher := deleteOne i (Teacher db)\<rparr>
                   in if throws E DeleteBatchUpdateMany
                      then (Response 500 (ErrorMessage ''Server Error''), db1)
                      else let db2 = db1\<lparr>Batch := map (unsetTeacher i) (Batch db1)\<rparr>
                           in if throws E DeleteStudentUpdateMany
                              then (Response 500 (ErrorMessage ''Server Error''), db2)
                              else (Response 200
                                      (Message ''Teacher deleted and references cleaned''),
                                    db2\<lparr>Student := map (pullTeacher i) (Student db2)\<rparr>))"

section \<open>Notions of the specification\<close>

definition countedSales :: "database \<Rightarrow> objectid \<Rightarrow> sale list" where
  \<comment> \<open>the Sales whose \<open>student\<close> is one of the students whose \<open>teachers\<close> list contains
      the teacher's id, and whose \<open>status\<close> equals \<open>'completed'\<close>\<close>
  "countedSales db i =
     filter (\<lambda>s. (\<exists>st \<in> set (Student db). i \<in> set (teachers st) \<and> student s = student_id st) \<and>
                  sale_status s = ''completed'')
       (Sales db)"

definition rounds_half_up :: "rat \<Rightarrow> int \<Rightarrow> bool" where
  \<comment> \<open>\<open>n\<close> hundredths is \<open>x\<close> rounded to two decimal places, half up: \<open>x\<close> is less than
      half a hundredth above \<open>n / 100\<close> and at most half a hundredth below it\<close>
  "rounds_half_up x n \<longleftrightarrow> of_int n - 1 / 2 \<le> 100 * x \<and> 100 * x < of_int n + 1 / 2"

definition two_decimals :: "jsnum \<Rightarrow> fixed \<Rightarrow> bool" where
  \<comment> \<open>the cell shows the Number \<open>p\<close> to two decimal places: when \<open>p\<close> is finite and below
      \<open>10\<^sup>2\<^sup>1\<close> in magnitude, its magnitude rounded half up, with a minus sign when \<open>p\<close> is
      negative; otherwise \<open>p\<close> as \<open>ToString\<close> prints it\<close>
  "two_decimals p cell \<longleftrightarrow>
     (case p of
        Finite x \<Rightarrow>
          if \<bar>x\<bar> < 10 ^ 21 then \<exists>n. cell = Fixed (x < 0) n \<and> rounds_half_up \<bar>x\<bar> n
          else cell = Verbatim p
      | _ \<Rightarrow> cell = Verbatim p)"

definition stored_rounding :: "jsnum \<Rightarrow> jsnum \<Rightarrow> bool" where
  \<comment> \<open>\<open>v\<close> is the Number \<open>p\<close> rounded to two decimal places and read back as a Number:
      when \<open>p\<close> is finite and below \<open>10\<^sup>2\<^sup>1\<close> in magnitude, the Number nearest to the
      hundredths \<open>n\<close> of its magnitude rounded half up, with the sign of \<open>p\<close>; otherwise
      \<open>p\<close> itself\<close>
  "stored_rounding p v \<longleftrightarrow>
     (case p of
        Finite x \<Rightarrow>
          if \<bar>x\<bar> < 10 ^ 21
          then \<exists>n. rounds_half_up \<bar>x\<bar> n \<and>
                   v = binary64 ((if x < 0 then - 1 else 1) * of_int n / 100)
          else v = p
      | _ \<Rightarrow> v = p)"

section \<open>A sample store\<close>

definition jamie :: teacher where
  "jamie = \<lparr>teacher_id = 101, name = ''Jamie Smith'', email = ''jamie.smith@example.com'',
     phone = ''+1 234-567-8901'', specialization = Some ''Business Strategy'',
     status = ''active'', password = ''$2b$10$N9qo8uLOickgx2ZMRZoMye'', role = ''Teacher'',
     totalEarnings = Finite 0\<rparr>"

definition priya :: teacher where
  "priya = \<lparr>teacher_id = 102, name = ''Priya Nair'', email = ''priya.nair@example.com'',
     phone = ''+1 234-567-8902'', specialization = None,
     status = ''inactive'', password = ''$2b$10$7EqJtq98hPqEX7fNZaFWoO'', role = ''Teacher'',
     totalEarnings = Finite 5\<rparr>"

definition batchA :: batch where
  "batchA = \<lparr>batch_id = 401, batchName = ''Batch A'', teacher = Some 101,
     startDate = ''2025-01-01'', endDate = ''2025-06-01'',
     scheduleDays = [''Monday'', ''Wednesday'', ''Friday''],
     sessionTime = ''10:00 AM - 12:00 PM'', sessionTopic = [''Math'', ''Science''],
     totalStudents = 20, revenue = Finite 2000\<rparr>"

definition batchB :: batch where
  "batchB = \<lparr>batch_id = 402, batchName = ''Batch B'', teacher = Some 102,
     startDate = ''2025-06-01'', endDate = ''2025-01-01'',
     scheduleDays = [''Tuesday''],
     sessionTime = ''2:00 PM - 3:00 PM'', sessionTopic = [],
     totalStudents = 2, revenue = Finite (9 / 4)\<rparr>"

definition batchC :: batch where
  "batchC = \<lparr>batch_id = 403, batchName = ''Batch C'', teacher = None,
     startDate = ''2025-03-01'', endDate = ''2025-03-01'',
     scheduleDays = [], sessionTime = [], sessionTopic = [],
     totalStudents = 0, revenue = Finite 0\<rparr>"

definition asha :: student where
  "asha = \<lparr>student_id = 201, teachers = [101], profile = [(''name'', ''Asha'')]\<rparr>"

definition bo :: student where
  "bo = \<lparr>student_id = 202, teachers = [101, 102], profile = [(''name'', ''Bo'')]\<rparr>"

definition chen :: student where
  "chen = \<lparr>student_id = 203, teachers = [102], profile = []\<rparr>"

definition sale50 :: sale where
  "sale50 = \<lparr>sale_id = 301, student = 201, amount = Finite 50, sale_status = ''completed''\<rparr>"

definition sale30 :: sale where
  "sale30 = \<lparr>sale_id = 302, student = 202, amount = Finite 30, sale_status = ''completed''\<rparr>"

definition sale1000 :: sale where
  "sale1000 = \<lparr>sale_id = 303, student = 201, amount = Finite 1000, sale_status = ''pending''\<rparr>"

definition sale70 :: sale where
  "sale70 = \<lparr>sale_id = 304, student = 203, amount = Finite 70, sale_status = ''completed''\<rparr>"

definition exampleStore :: database where
  "exampleStore =
     \<lparr>Teacher = [jamie, priya],
      Batch = [batchA, batchB, batchC],
      Student = [asha, bo, chen],
      Sales = [sale50, sale30, sale1000, sale70]\<rparr>"

definition exampleEnv :: env where
  "exampleEnv =
     \<lparr>castObjectId =
        map_of [(''665f1c2a9b3e4d0012ab3101'', 101), (''665f1c2a9b3e4d0012ab3102'', 102),
                (''665f1c2a9b3e4d0012ab3109'', 109)],
      throws = (\<lambda>c. False),
      genSalt = ''$2b$10$abcdefghijklmnopqrstuv'',
      hash = (\<lambda>pw salt. salt @ pw),
      newObjectId = 103,
      defaultTotalEarnings = Finite 0\<rparr>"

definition failingEnv :: env where
  \<comment> \<open>as \<open>exampleEnv\<close>, but the save of teacher 102 throws\<close>
  "failingEnv = exampleEnv\<lparr>throws := (\<lambda>c. c = ListSave 102)\<rparr>"


definition exampleDates :: "string \<Rightarrow> timevalue" where
  \<comment> \<open>midnight UTC of three days, in milliseconds since the epoch\<close>
  "exampleDates =
     map_of [(''2025-01-01'', 1735689600000), (''2025-03-01'', 1740787200000),
             (''2025-06-01'', 1748736000000)]"

definition sameEmailBody :: request_body where
  \<comment> \<open>a body that submits the email of teacher 101\<close>
  "sameEmailBody =
     \<lparr>req_name = Some ''J. Smith'', req_email = Some ''jamie.smith@example.com'',
      req_phone = Some ''+1 234-567-0000'', req_specialization = None, req_status = None,
      req_password = Some ''hunter2''\<rparr>"

definition sale225 :: sale where
  "sale225 = \<lparr>sale_id = 305, student = 201, amount = Finite (9 / 4), sale_status = ''completed''\<rparr>"

definition sale01 :: sale where
  \<comment> \<open>an amount of 0.1, as a Number\<close>
  "sale01 = \<lparr>sale_id = 306, student = 203, amount = binary64 (1 / 10),
     sale_status = ''completed''\<rparr>"

definition sale02 :: sale where
  \<comment> \<open>an amount of 0.2, as a Number\<close>
  "sale02 = \<lparr>sale_id = 307, student = 203, amount = binary64 (2 / 10),
     sale_status = ''completed''\<rparr>"

definition quarterStore :: database where
  \<comment> \<open>the sample store with other sales: one of 2.25 to a student of teacher 101, of 0.1
      and 0.2 to a student of teacher 102\<close>
  "quarterStore = exampleStore\<lparr>Sales := [sale225, sale01, sale02]\<rparr>"

section \<open>Facts about Numbers\<close>

lemma pow2_diff: "(2::rat) powi (m - n) = 2 powi m / 2 powi n"
  by (rule power_int_diff) simp

lemma pow2_add: "(2::rat) powi (m + n) = 2 powi m * 2 powi n"
  by (rule power_int_add) simp

lemma ilog2_le:
  assumes "0 < q"
  shows "2 powi (ilog2 q) \<le> q"
proof -
  obtain a b where ab: "quotient_of q = (a, b)"
    by (cases "quotient_of q")
  have b0: "0 < b" using ab by (rule quotient_of_denom_pos)
  have q: "q = of_int a / of_int b" using ab by (rule quotient_of_div)
  have a0: "0 < a" using assms b0 unfolding q by (simp add: zero_less_divide_iff)
  let ?d = "bitlen a - bitlen b"
  show ?thesis
  proof (cases "2 powi ?d \<le> q")
    case True
    then show ?thesis by (simp add: ilog2_def ab Let_def)
  next
    case False
    have la: "1 \<le> bitlen a" and lb: "1 \<le> bitlen b"
      using a0 b0 by (simp_all add: bitlen_alt_def)
    have "(2::int) ^ nat (bitlen a - 1) \<le> a" using bitlen_bounds [OF a0] by simp
    then have A: "(2::rat) ^ nat (bitlen a - 1) \<le> of_int a"
      by (metis of_int_le_iff of_int_numeral of_int_power)
    have "b < 2 ^ nat (bitlen b)" using bitlen_bounds [OF b0] by simp
    then have B: "of_int b \<le> (2::rat) ^ nat (bitlen b)"
      by (metis less_imp_le of_int_le_iff of_int_numeral of_int_power)
    have "?d - 1 = (bitlen a - 1) - bitlen b" by simp
    then have "(2::rat) powi (?d - 1) = 2 powi (bitlen a - 1) / 2 powi (bitlen b)"
      by (simp only: pow2_diff)
    also have "\<dots> = 2 ^ nat (bitlen a - 1) / 2 ^ nat (bitlen b)"
      using la lb by (simp add: power_int_def)
    also have "\<dots> \<le> of_int a / of_int b"
      using A B b0 a0 by (intro frac_le) simp_all
    also have "\<dots> = q" by (simp only: q)
    finally have "2 powi (?d - 1) \<le> q" .
    moreover have "ilog2 q = ?d - 1"
      using False by (simp add: ilog2_def ab Let_def)
    ultimately show ?thesis by simp
  qed
qed

lemma ilog2_gt:
  assumes "0 < q"
  shows "q < 2 powi (ilog2 q + 1)"
proof -
  obtain a b where ab: "quotient_of q = (a, b)"
    by (cases "quotient_of q")
  have b0: "0 < b" using ab by (rule quotient_of_denom_pos)
  have q: "q = of_int a / of_int b" using ab by (rule quotient_of_div)
  have a0: "0 < a" using assms b0 unfolding q by (simp add: zero_less_divide_iff)
  let ?d = "bitlen a - bitlen b"
  show ?thesis
  proof (cases "2 powi ?d \<le> q")
    case True
    have la: "1 \<le> bitlen a" and lb: "1 \<le> bitlen b"
      using a0 b0 by (simp_all add: bitlen_alt_def)
    have "a < 2 ^ nat (bitlen a)" using bitlen_bounds [OF a0] by simp
    then have A: "of_int a < (2::rat) ^ nat (bitlen a)"
      by (metis of_int_less_iff of_int_numeral of_int_power)
    have "(2::int) ^ nat (bitlen b - 1) \<le> b" using bitlen_bounds [OF b0] by simp
    then have B: "(2::rat) ^ nat (bitlen b - 1) \<le> of_int b"
      by (metis of_int_le_iff of_int_numeral of_int_power)
    have "q = of_int a / of_int b" by (rule q)
    also have "\<dots> < 2 ^ nat (bitlen a) / 2 ^ nat (bitlen b - 1)"
      using A B a0 by (intro frac_less) simp_all
    also have "\<dots> = 2 powi (bitlen a) / 2 powi (bitlen b - 1)"
      using la lb by (simp add: power_int_def)
    also have "\<dots> = 2 powi (bitlen a - (bitlen b - 1))"
      by (simp only: pow2_diff)
    also have "bitlen a - (bitlen b - 1) = ?d + 1" by simp
    finally have "q < 2 powi (?d + 1)" .
    moreover have "ilog2 q = ?d"
      using True by (simp add: ilog2_def ab Let_def)
    ultimately show ?thesis by simp
  next
    case False
    then have "ilog2 q = ?d - 1"
      by (simp add: ilog2_def ab Let_def)
    then show ?thesis using False by simp
  qed
qed

lemma round_half_even_le:
  assumes "x \<le> of_int N"
  shows "round_half_even x \<le> N"
proof (cases "\<lfloor>x\<rfloor> = N")
  case True
  then have "x - of_int \<lfloor>x\<rfloor> \<le> 0" using assms by simp
  then show ?thesis using True by (simp add: round_half_even_def Let_def)
next
  case False
  moreover have "\<lfloor>x\<rfloor> \<le> N" using assms by (simp add: floor_le_iff)
  ultimately have "\<lfloor>x\<rfloor> + 1 \<le> N" by simp
  then show ?thesis by (simp add: round_half_even_def Let_def)
qed

lemma round_half_even_nonneg: "0 \<le> x \<Longrightarrow> 0 \<le> round_half_even x"
  by (simp add: round_half_even_def Let_def)

lemma round_half_even_near: "\<bar>of_int (round_half_even x) - x\<bar> \<le> 1 / 2"
proof -
  have "of_int \<lfloor>x\<rfloor> \<le> x" "x < of_int \<lfloor>x\<rfloor> + 1"
    by linarith+
  then show ?thesis
    by (auto simp: round_half_even_def Let_def abs_le_iff)
qed

lemma scale_near:
  fixes m a u :: rat
  assumes "0 < u" and "\<bar>m - a / u\<bar> \<le> 1 / 2"
  shows "\<bar>m * u - a\<bar> \<le> u / 2"
proof -
  have "m * u - a = (m - a / u) * u"
    using assms(1) by (simp add: field_simps)
  then have "\<bar>m * u - a\<bar> = \<bar>m - a / u\<bar> * u"
    using assms(1) by (simp add: abs_mult)
  also have "\<dots> \<le> 1 / 2 * u"
    using assms by (intro mult_right_mono) simp_all
  finally show ?thesis by simp
qed

lemma signed_near:
  fixes x q v :: rat
  assumes "q \<noteq> 0" and "x = (if 0 < q then v else - v)"
  shows "\<bar>x - q\<bar> = \<bar>v - \<bar>q\<bar>\<bar>"
  using assms by (cases "0 < q") simp_all

text \<open>
  What \<open>binary64\<close> returns for a result other than zero, when finite: a multiple of the
  unit in the last place of the result's binade with a significand of at most 53 bits,
  at most half that unit away from the result.
\<close>

lemma binary64_nearest:
  assumes "q \<noteq> 0" and "binary64 q = Finite x"
  shows "\<exists>m. \<bar>x\<bar> = of_int m * 2 powi (max (ilog2 \<bar>q\<bar>) (- 1022) - 52) \<and> 0 \<le> m \<and> m \<le> 2 ^ 53 \<and>
             \<bar>x - q\<bar> \<le> 2 powi (max (ilog2 \<bar>q\<bar>) (- 1022) - 52) / 2"
proof -
  define e where "e = max (ilog2 \<bar>q\<bar>) (- 1022)"
  define u where "u = (2::rat) powi (e - 52)"
  define m where "m = round_half_even (\<bar>q\<bar> / u)"
  have a0: "0 < \<bar>q\<bar>" using assms(1) by simp
  have u0: "0 < u" by (simp add: u_def)
  have x: "x = (if 0 < q then of_int m * u else - (of_int m * u))"
    using assms by (simp add: binary64_def Let_def e_def u_def m_def split: if_splits)
  have m0: "0 \<le> m"
    unfolding m_def using u0 by (intro round_half_even_nonneg) simp
  have "ilog2 \<bar>q\<bar> + 1 \<le> e + 1" by (simp add: e_def)
  then have "(2::rat) powi (ilog2 \<bar>q\<bar> + 1) \<le> 2 powi (e + 1)"
    by (rule power_int_increasing) simp
  moreover have "\<bar>q\<bar> < 2 powi (ilog2 \<bar>q\<bar> + 1)" using a0 by (rule ilog2_gt)
  ultimately have "\<bar>q\<bar> < 2 powi (e + 1)" by (rule less_le_trans [rotated])
  moreover have "e + 1 = 53 + (e - 52)" by simp
  ultimately have "\<bar>q\<bar> < 2 powi (53 + (e - 52))" by (simp only:)
  then have "\<bar>q\<bar> < 2 powi 53 * u" by (simp only: pow2_add u_def)
  then have "\<bar>q\<bar> / u < 2 powi 53"
    by (simp only: pos_divide_less_eq [OF u0])
  moreover have "(2::rat) powi 53 = of_int (2 ^ 53)" by simp
  ultimately have "\<bar>q\<bar> / u \<le> of_int (2 ^ 53)" by (simp only: less_imp_le)
  then have m53: "m \<le> 2 ^ 53" unfolding m_def by (rule round_half_even_le)
  have "\<bar>of_int m - \<bar>q\<bar> / u\<bar> \<le> 1 / 2"
    unfolding m_def by (rule round_half_even_near)
  then have near: "\<bar>of_int m * u - \<bar>q\<bar>\<bar> \<le> u / 2"
    by (rule scale_near [OF u0])
  have "\<bar>x - q\<bar> = \<bar>of_int m * u - \<bar>q\<bar>\<bar>"
    using assms(1) x by (rule signed_near)
  then have d: "\<bar>x - q\<bar> \<le> u / 2" using near by (simp only:)
  have "0 \<le> of_int m * u" using m0 u0 by simp
  then have "\<bar>x\<bar> = of_int m * u"
    unfolding x by (cases "0 < q") simp_all
  then have "\<bar>x\<bar> = of_int m * u \<and> 0 \<le> m \<and> m \<le> 2 ^ 53 \<and> \<bar>x - q\<bar> \<le> u / 2"
    using m0 m53 d by (simp only: simp_thms)
  then show ?thesis
    unfolding u_def e_def by (rule exI)
qed

text \<open>
  A result between zero and a power of two in range is a finite Number between zero and
  that power: rounding neither overflows nor passes the power.
\<close>

lemma binary64_le_pow2:
  assumes "0 \<le> q" and "q \<le> 2 ^ k" and "k < 1024"
  shows "\<exists>x. binary64 q = Finite x \<and> 0 \<le> x \<and> x \<le> 2 ^ k"
proof (cases "q = 0")
  case True
  then show ?thesis by (simp add: binary64_def)
next
  case False
  then have q0: "0 < q" using assms(1) by simp
  let ?e = "max (ilog2 q) (- 1022)"
  let ?u = "(2::rat) powi (?e - 52)"
  let ?m = "round_half_even (q / ?u)"
  let ?v = "of_int ?m * ?u"
  have u0: "0 < ?u" by simp
  have "(2::rat) powi (ilog2 q) \<le> 2 powi (int k)"
    using ilog2_le [OF q0] assms(2) by simp
  then have "ilog2 q \<le> int k"
    by (rule power_int_le_imp_le_exp [rotated]) simp_all
  then have ek: "?e \<le> int k" by simp
  let ?N = "(2::int) ^ nat (int k - ?e + 52)"
  have N: "of_int ?N * ?u = (2::rat) ^ k"
  proof -
    have "(of_int ?N :: rat) = 2 powi (int k - ?e + 52)"
      using ek by (simp add: power_int_def)
    then have "of_int ?N * ?u = 2 powi ((int k - ?e + 52) + (?e - 52))"
      by (simp only: pow2_add)
    also have "(int k - ?e + 52) + (?e - 52) = int k" by linarith
    finally show ?thesis by simp
  qed
  have "q / ?u \<le> of_int ?N"
    using assms(2) u0 N by (simp add: pos_divide_le_eq)
  then have mN: "?m \<le> ?N" by (rule round_half_even_le)
  have m0: "0 \<le> ?m"
    using q0 u0 by (intro round_half_even_nonneg) simp
  have v0: "0 \<le> ?v" using m0 u0 by simp
  have "of_int ?m \<le> (of_int ?N :: rat)"
    using mN by (simp only: of_int_le_iff)
  then have "?v \<le> of_int ?N * ?u"
    using u0 by (intro mult_right_mono) simp_all
  then have vk: "?v \<le> 2 ^ k" unfolding N .
  have e1023: "\<not> 1023 < ?e" using ek assms(3) by linarith
  have "?m \<noteq> 2 ^ 53" if "?e = 1023"
  proof -
    have "int k - ?e + 52 = 52" using that ek assms(3) by linarith
    then have "?N = 2 ^ 52" by (simp only: nat_numeral)
    then show ?thesis using mN by simp
  qed
  then have "\<not> (1023 < ?e \<or> (?e = 1023 \<and> ?m = 2 ^ 53))"
    using e1023 by blast
  then have "binary64 q = Finite ?v"
    using q0 by (simp add: binary64_def Let_def)
  then show ?thesis using v0 vk by blast
qed

lemma toFixed2_finite:
  assumes "\<bar>x\<bar> < 10 ^ 21"
  shows "\<exists>n. toFixed2 (Finite x) = Fixed (x < 0) n \<and> rounds_half_up \<bar>x\<bar> n"
proof -
  let ?k = "\<lfloor>\<bar>x\<bar> * 100 + 1 / 2\<rfloor>"
  have "of_int ?k \<le> \<bar>x\<bar> * 100 + 1 / 2" "\<bar>x\<bar> * 100 + 1 / 2 < of_int ?k + 1"
    by linarith+
  then have "of_int ?k - 1 / 2 \<le> 100 * \<bar>x\<bar>" "100 * \<bar>x\<bar> < of_int ?k + 1 / 2"
    by linarith+
  then have "rounds_half_up \<bar>x\<bar> ?k"
    by (simp add: rounds_half_up_def)
  moreover have "toFixed2 (Finite x) = Fixed (x < 0) ?k"
    using assms by (simp add: toFixed2_def)
  ultimately show ?thesis by blast
qed

lemma literal_0_2: "binary64 (2 / 10) = Finite (3602879701896397 / 18014398509481984)"
  by code_simp

lemma literal_0_3: "binary64 (3 / 10) = Finite (5404319552844595 / 18014398509481984)"
  by code_simp

lemma binary64_minus_finite:
  assumes "binary64 q = Finite x"
  shows "binary64 (- q) = Finite (- x)"
proof (cases "q = 0")
  case True
  then show ?thesis using assms by (simp add: binary64_def)
next
  case False
  define e where "e = max (ilog2 \<bar>q\<bar>) (- 1022)"
  define u where "u = (2::rat) powi (e - 52)"
  define m where "m = round_half_even (\<bar>q\<bar> / u)"
  have q: "binary64 q = (if 1023 < e \<or> (e = 1023 \<and> m = 2 ^ 53)
              then (if 0 < q then PosInf else NegInf)
              else Finite (if 0 < q then of_int m * u else - (of_int m * u)))"
    unfolding binary64_def Let_def e_def u_def m_def
    using False by (simp only: if_False)
  have nq: "binary64 (- q) = (if 1023 < e \<or> (e = 1023 \<and> m = 2 ^ 53)
              then (if 0 < - q then PosInf else NegInf)
              else Finite (if 0 < - q then of_int m * u else - (of_int m * u)))"
    unfolding binary64_def Let_def e_def u_def m_def
    using False by (simp only: if_False neg_equal_0_iff_equal abs_minus_cancel)
  have fin: "\<not> (1023 < e \<or> (e = 1023 \<and> m = 2 ^ 53))"
    using assms unfolding q by (auto split: if_splits)
  have x: "x = (if 0 < q then of_int m * u else - (of_int m * u))"
    using assms fin unfolding q by (auto split: if_splits)
  show ?thesis
    unfolding nq x using fin False by (cases "0 < q") simp_all
qed

lemma binary64_abs_le_pow2:
  assumes "\<bar>q\<bar> \<le> 2 ^ k" and "k < 1024"
  shows "\<exists>x. binary64 q = Finite x \<and> \<bar>x\<bar> \<le> 2 ^ k"
proof (cases "0 \<le> q")
  case True
  then have "q \<le> 2 ^ k" using assms(1) by simp
  from binary64_le_pow2 [OF True this assms(2)] show ?thesis by auto
next
  case False
  then have "0 \<le> - q" "- q \<le> 2 ^ k" using assms(1) by simp_all
  from binary64_le_pow2 [OF this assms(2)] obtain x
    where x: "binary64 (- q) = Finite x" "0 \<le> x" "x \<le> 2 ^ k" by auto
  from binary64_minus_finite [OF x(1)] have "binary64 q = Finite (- x)" by simp
  then show ?thesis using x(2,3) by auto
qed

text \<open>The rounding error of a finite result: relative \<open>2\<^sup>-\<^sup>5\<^sup>3\<close>, or half the least subnormal.\<close>

lemma binary64_error:
  assumes "binary64 q = Finite x"
  shows "\<bar>x - q\<bar> \<le> \<bar>q\<bar> / 2 ^ 53 + 2 powi (- 1075)"
proof (cases "q = 0")
  case True
  then show ?thesis using assms by (simp add: binary64_def)
next
  case False
  define l where "l = ilog2 \<bar>q\<bar>"
  define e where "e = max l (- 1022)"
  from binary64_nearest [OF False assms]
  have near: "\<bar>x - q\<bar> \<le> 2 powi (e - 52) / 2"
    unfolding e_def l_def by blast
  have a0: "0 < \<bar>q\<bar>" using False by simp
  have low: "2 powi l \<le> \<bar>q\<bar>" unfolding l_def using a0 by (rule ilog2_le)
  have half: "(2::rat) powi (e - 52) / 2 = 2 powi (e - 53)"
  proof -
    have "e - 53 = (e - 52) - 1" by simp
    then have "(2::rat) powi (e - 53) = 2 powi (e - 52) / 2 powi 1"
      by (simp only: pow2_diff)
    then show ?thesis by simp
  qed
  have "(2::rat) powi (e - 53) \<le> \<bar>q\<bar> / 2 ^ 53 + 2 powi (- 1075)"
  proof (cases "- 1022 \<le> l")
    case True
    then have "e = l" by (simp add: e_def)
    then have "(2::rat) powi (e - 53) = 2 powi l / 2 powi 53"
      by (simp only: pow2_diff)
    also have "\<dots> = 2 powi l / 2 ^ 53" by simp
    also have "\<dots> \<le> \<bar>q\<bar> / 2 ^ 53"
      using low by (rule divide_right_mono) simp
    also have "\<dots> \<le> \<bar>q\<bar> / 2 ^ 53 + 2 powi (- 1075)"
      by simp
    finally show ?thesis .
  next
    case False
    then have "e = - 1022" by (simp add: e_def)
    then have "(2::rat) powi (e - 53) = 2 powi (- 1075)" by simp
    moreover have "0 \<le> \<bar>q\<bar> / 2 ^ 53" by simp
    ultimately show ?thesis by linarith
  qed
  then show ?thesis using near unfolding half by linarith
qed

lemma toFixed2_two_decimals: "two_decimals p (toFixed2 p)"
proof (cases p)
  case (Finite x)
  show ?thesis
  proof (cases "\<bar>x\<bar> < 10 ^ 21")
    case True
    from toFixed2_finite [OF True] show ?thesis
      using True by (simp add: two_decimals_def Finite)
  next
    case False
    then show ?thesis by (simp add: two_decimals_def Finite toFixed2_def)
  qed
qed (simp_all add: two_decimals_def toFixed2_def)

lemma round2_stored_rounding: "stored_rounding p (round2 p)"
proof (cases p)
  case (Finite x)
  show ?thesis
  proof (cases "\<bar>x\<bar> < 10 ^ 21")
    case True
    from toFixed2_finite [OF True] obtain n
      where n: "toFixed2 (Finite x) = Fixed (x < 0) n" "rounds_half_up \<bar>x\<bar> n"
      by blast
    have "round2 (Finite x) = binary64 ((if x < 0 then - 1 else 1) * of_int n / 100)"
      by (simp add: round2_def n(1) parseFloat_def)
    then show ?thesis
      using True n(2) unfolding stored_rounding_def Finite by auto
  next
    case False
    then show ?thesis
      by (simp add: stored_rounding_def Finite round2_def toFixed2_def parseFloat_def)
  qed
qed (simp_all add: stored_rounding_def round2_def toFixed2_def parseFloat_def)

lemma product_cell:
  assumes "\<bar>r\<bar> < 10 ^ 21" and "0 \<le> c" and "c \<le> 1 / 2" and "\<bar>c - k\<bar> \<le> 1 / (5 * 2 ^ 54)"
  shows "\<exists>x n. binary64 (r * c) = Finite x \<and> \<bar>x - r * k\<bar> \<le> \<bar>r\<bar> / 2 ^ 53 + 2 powi (- 1075) \<and>
           toFixed2 (Finite x) = Fixed (x < 0) n \<and> rounds_half_up \<bar>x\<bar> n"
proof -
  have rc: "\<bar>r * c\<bar> \<le> \<bar>r\<bar> / 2"
  proof -
    have "\<bar>r * c\<bar> = \<bar>r\<bar> * c" using assms(2) by (simp add: abs_mult)
    also have "\<dots> \<le> \<bar>r\<bar> * (1 / 2)" using assms(3) by (intro mult_left_mono) simp_all
    finally show ?thesis by simp
  qed
  have "\<bar>r\<bar> / 2 \<le> 10 ^ 21 / 2" using assms(1) by simp
  also have "\<dots> \<le> (2::rat) ^ 69" by simp
  finally have "\<bar>r * c\<bar> \<le> 2 ^ 69" using rc by linarith
  from binary64_abs_le_pow2 [OF this] obtain x
    where x: "binary64 (r * c) = Finite x" "\<bar>x\<bar> \<le> 2 ^ 69"
    by auto
  have "\<bar>x\<bar> < 10 ^ 21" using x(2) by simp
  from toFixed2_finite [OF this] obtain n
    where n: "toFixed2 (Finite x) = Fixed (x < 0) n" "rounds_half_up \<bar>x\<bar> n"
    by auto
  have e1: "\<bar>x - r * c\<bar> \<le> \<bar>r * c\<bar> / 2 ^ 53 + 2 powi (- 1075)"
    using x(1) by (rule binary64_error)
  have e2: "\<bar>r * c\<bar> / 2 ^ 53 \<le> \<bar>r\<bar> / 2 / 2 ^ 53"
    using rc by (rule divide_right_mono) simp
  have "\<bar>r * c - r * k\<bar> = \<bar>r\<bar> * \<bar>c - k\<bar>"
    by (simp add: abs_mult flip: right_diff_distrib)
  also have "\<dots> \<le> \<bar>r\<bar> * (1 / (5 * 2 ^ 54))"
    using assms(4) by (intro mult_left_mono) simp_all
  finally have e3: "\<bar>r * c - r * k\<bar> \<le> \<bar>r\<bar> * (1 / (5 * 2 ^ 54))" .
  have e4: "\<bar>r\<bar> / 2 / 2 ^ 53 + \<bar>r\<bar> * (1 / (5 * 2 ^ 54)) \<le> \<bar>r\<bar> / 2 ^ 53"
    by simp
  have "\<bar>x - r * k\<bar> \<le> \<bar>x - r * c\<bar> + \<bar>r * c - r * k\<bar>"
    by linarith
  then have "\<bar>x - r * k\<bar> \<le> \<bar>r\<bar> / 2 ^ 53 + 2 powi (- 1075)"
    using e1 e2 e3 e4 by linarith
  then show ?thesis using x(1) n by blast
qed

lemma literal_errors:
  "\<bar>3602879701896397 / 18014398509481984 - 2 / 10\<bar> \<le> (1::rat) / (5 * 2 ^ 54)"
  "\<bar>5404319552844595 / 18014398509481984 - 3 / 10\<bar> \<le> (1::rat) / (5 * 2 ^ 54)"
  by simp_all

section \<open>Batch status\<close>

text \<open>
  Claim C3, as the code has it. The status is one of the three strings. It is
  \<open>upcoming\<close> exactly when \<open>now < startDate\<close>; \<open>completed\<close> exactly when that is not so
  and \<open>now > endDate\<close>; \<open>ongoing\<close> in every other case. When \<open>now\<close> equals the start it
  is \<open>ongoing\<close> unless \<open>now > endDate\<close>, and when \<open>now\<close> equals the end it is \<open>ongoing\<close>
  unless \<open>now < startDate\<close>. The first test wins: a batch whose end lies before its
  start is \<open>upcoming\<close>, not \<open>completed\<close>, at a time between the two.
\<close>

theorem getBatchStatus_cases:
  "getBatchStatus P now s e \<in> {''upcoming'', ''ongoing'', ''completed''} \<and>
   (getBatchStatus P now s e = ''upcoming'' \<longleftrightarrow> js_lt (Some now) (P s)) \<and>
   (getBatchStatus P now s e = ''completed'' \<longleftrightarrow>
      \<not> js_lt (Some now) (P s) \<and> js_lt (P e) (Some now)) \<and>
   (getBatchStatus P now s e = ''ongoing'' \<longleftrightarrow>
      \<not> js_lt (Some now) (P s) \<and> \<not> js_lt (P e) (Some now)) \<and>
   (P s = Some now \<and> \<not> js_lt (P e) (Some now) \<longrightarrow> getBatchStatus P now s e = ''ongoing'') \<and>
   (P e = Some now \<and> \<not> js_lt (Some now) (P s) \<longrightarrow> getBatchStatus P now s e = ''ongoing'')"
proof -
  have "js_lt (Some now) (P s) \<Longrightarrow> getBatchStatus P now s e = ''upcoming''"
    by (simp add: getBatchStatus_def Let_def)
  moreover have "\<not> js_lt (Some now) (P s) \<Longrightarrow> js_lt (P e) (Some now) \<Longrightarrow>
      getBatchStatus P now s e = ''completed''"
    by (simp add: getBatchStatus_def Let_def)
  moreover have "\<not> js_lt (Some now) (P s) \<Longrightarrow> \<not> js_lt (P e) (Some now) \<Longrightarrow>
      getBatchStatus P now s e = ''ongoing''"
    by (simp add: getBatchStatus_def Let_def)
  moreover have "\<not> js_lt (Some now) (Some now)"
    by (simp add: js_lt_def)
  ultimately show ?thesis
    by (cases "js_lt (Some now) (P s)"; cases "js_lt (P e) (Some now)") auto
qed

lemma exampleDates_values:
  "exampleDates ''2025-01-01'' = Some 1735689600000"
  "exampleDates ''2025-03-01'' = Some 1740787200000"
  "exampleDates ''2025-06-01'' = Some 1748736000000"
  by (simp_all add: exampleDates_def)

theorem getBatchStatus_cases_example:
  "exampleDates ''2025-01-01'' = Some 1735689600000 \<and>
   \<not> js_lt (exampleDates ''2025-06-01'') (Some 1735689600000) \<and>
   getBatchStatus exampleDates 1735689600000 ''2025-01-01'' ''2025-06-01'' = ''ongoing'' \<and>
   exampleDates ''2025-06-01'' = Some 1748736000000 \<and>
   \<not> js_lt (Some 1748736000000) (exampleDates ''2025-01-01'') \<and>
   getBatchStatus exampleDates 1748736000000 ''2025-01-01'' ''2025-06-01'' = ''ongoing''"
proof -
  have a: "exampleDates ''2025-01-01'' = Some 1735689600000 \<and>
           \<not> js_lt (exampleDates ''2025-06-01'') (Some 1735689600000)"
    by (simp add: exampleDates_values js_lt_def)
  have b: "exampleDates ''2025-06-01'' = Some 1748736000000 \<and>
           \<not> js_lt (Some 1748736000000) (exampleDates ''2025-01-01'')"
    by (simp add: exampleDates_values js_lt_def)
  show ?thesis
    using a b
      getBatchStatus_cases [of exampleDates 1735689600000 "''2025-01-01''" "''2025-06-01''"]
      getBatchStatus_cases [of exampleDates 1748736000000 "''2025-01-01''" "''2025-06-01''"]
    by blast
qed

text \<open>
  Batch B of the sample store ends before it starts. On 1 March 2025, after its end and
  before its start, \<open>now > endDate\<close> holds and its status is \<open>upcoming\<close>.
\<close>

theorem getBatchStatus_completed_counterexample:
  "\<not> (getBatchStatus exampleDates 1740787200000 (startDate batchB) (endDate batchB) = ''completed''
       \<longleftrightarrow> js_lt (exampleDates (endDate batchB)) (Some 1740787200000))"
  by (simp add: getBatchStatus_def Let_def batchB_def exampleDates_values js_lt_def)

section \<open>Revenue shares\<close>

lemma shares_of_100_and_0:
  "teacherShare (Finite 100) = Fixed False 2000 \<and> platformShare (Finite 100) = Fixed False 3000 \<and>
   teacherShare (Finite 0) = Fixed False 0 \<and> platformShare (Finite 0) = Fixed False 0"
  by code_simp

lemma render_cells:
  "render False 2000 = ''20.00''" "render False 3000 = ''30.00''" "render False 0 = ''0.00''"
  by (simp_all add: render_def decimal.simps digit_def)

lemma share_of_finite:
  assumes "\<bar>r\<bar> < 10 ^ 21"
  shows "\<exists>x n. js_mul (Finite r) (binary64 (2 / 10)) = Finite x \<and>
           \<bar>x - r * (2 / 10)\<bar> \<le> \<bar>r\<bar> / 2 ^ 53 + 2 powi (- 1075) \<and>
           teacherShare (Finite r) = Fixed (x < 0) n \<and> rounds_half_up \<bar>x\<bar> n"
    and "\<exists>y m. js_mul (Finite r) (binary64 (3 / 10)) = Finite y \<and>
           \<bar>y - r * (3 / 10)\<bar> \<le> \<bar>r\<bar> / 2 ^ 53 + 2 powi (- 1075) \<and>
           platformShare (Finite r) = Fixed (y < 0) m \<and> rounds_half_up \<bar>y\<bar> m"
proof -
  show "\<exists>x n. js_mul (Finite r) (binary64 (2 / 10)) = Finite x \<and>
           \<bar>x - r * (2 / 10)\<bar> \<le> \<bar>r\<bar> / 2 ^ 53 + 2 powi (- 1075) \<and>
           teacherShare (Finite r) = Fixed (x < 0) n \<and> rounds_half_up \<bar>x\<bar> n"
    unfolding teacherShare_def literal_0_2 js_mul.simps
    using product_cell [OF assms _ _ literal_errors(1)] by auto
  show "\<exists>y m. js_mul (Finite r) (binary64 (3 / 10)) = Finite y \<and>
           \<bar>y - r * (3 / 10)\<bar> \<le> \<bar>r\<bar> / 2 ^ 53 + 2 powi (- 1075) \<and>
           platformShare (Finite r) = Fixed (y < 0) m \<and> rounds_half_up \<bar>y\<bar> m"
    unfolding platformShare_def literal_0_3 js_mul.simps
    using product_cell [OF assms _ _ literal_errors(2)] by auto
qed

text \<open>
  Claim C4, as the code has it. For every revenue \<open>v\<close> the teacher's cell is \<open>toFixed(2)\<close>
  of the Number \<open>v * 0.2\<close> and the platform's cell of the Number \<open>v * 0.3\<close>, where
  \<open>*\<close> is the multiplication of Numbers: a product that is finite and below \<open>10\<^sup>2\<^sup>1\<close> in
  magnitude is shown with its magnitude rounded to two decimal places, half up, and a
  minus sign when it is negative; any other product is shown as \<open>ToString\<close> prints it.
  For a finite revenue \<open>r\<close> below \<open>10\<^sup>2\<^sup>1\<close> in magnitude the product is of the first kind
  and lies within \<open>\<bar>r\<bar> / 2\<^sup>5\<^sup>3 + 2\<^sup>-\<^sup>1\<^sup>0\<^sup>7\<^sup>5\<close> of the exact \<open>r * 0.2\<close> (\<open>r * 0.3\<close>). A revenue of
  100 shows 20.00 and 30.00, a revenue of 0 shows 0.00 twice.
\<close>

theorem revenue_shares:
  "two_decimals (js_mul v (binary64 (2 / 10))) (teacherShare v) \<and>
   two_decimals (js_mul v (binary64 (3 / 10))) (platformShare v) \<and>
   (\<bar>r\<bar> < 10 ^ 21 \<longrightarrow>
      (\<exists>x n. js_mul (Finite r) (binary64 (2 / 10)) = Finite x \<and>
         \<bar>x - r * (2 / 10)\<bar> \<le> \<bar>r\<bar> / 2 ^ 53 + 2 powi (- 1075) \<and>
         teacherShare (Finite r) = Fixed (x < 0) n \<and> rounds_half_up \<bar>x\<bar> n) \<and>
      (\<exists>y m. js_mul (Finite r) (binary64 (3 / 10)) = Finite y \<and>
         \<bar>y - r * (3 / 10)\<bar> \<le> \<bar>r\<bar> / 2 ^ 53 + 2 powi (- 1075) \<and>
         platformShare (Finite r) = Fixed (y < 0) m \<and> rounds_half_up \<bar>y\<bar> m)) \<and>
   teacherShare (Finite 100) = Fixed False 2000 \<and> render False 2000 = ''20.00'' \<and>
   platformShare (Finite 100) = Fixed False 3000 \<and> render False 3000 = ''30.00'' \<and>
   teacherShare (Finite 0) = Fixed False 0 \<and> platformShare (Finite 0) = Fixed False 0 \<and>
   render False 0 = ''0.00''"
proof -
  have t: "two_decimals (js_mul v (binary64 (2 / 10))) (teacherShare v)"
    unfolding teacherShare_def by (rule toFixed2_two_decimals)
  have p: "two_decimals (js_mul v (binary64 (3 / 10))) (platformShare v)"
    unfolding platformShare_def by (rule toFixed2_two_decimals)
  show ?thesis
    using t p share_of_finite [of r] shares_of_100_and_0 render_cells by blast
qed

text \<open>
  The revenue 2.25 of batch B is within the range. The product of Numbers \<open>2.25 * 0.3\<close> is
  0.67499999999999993, within the bound of the exact 0.675, and the platform's cell shows
  0.67, that product rounded half up to two decimal places. A revenue of 100 shows 20.00
  and 30.00.
\<close>

theorem revenue_shares_example:
  "\<bar>9 / 4 :: rat\<bar> < 10 ^ 21 \<and> revenue batchB = Finite (9 / 4) \<and>
   js_mul (Finite (9 / 4)) (binary64 (3 / 10)) =
     Finite (6079859496950169 / 9007199254740992) \<and>
   \<bar>6079859496950169 / 9007199254740992 - 9 / 4 * (3 / 10)\<bar>
     \<le> \<bar>9 / 4 :: rat\<bar> / 2 ^ 53 + 2 powi (- 1075) \<and>
   platformShare (Finite (9 / 4)) = Fixed False 67 \<and>
   rounds_half_up \<bar>6079859496950169 / 9007199254740992\<bar> 67 \<and>
   two_decimals (Finite (6079859496950169 / 9007199254740992)) (Fixed False 67) \<and>
   teacherShare (Finite 100) = Fixed False 2000 \<and> render False 2000 = ''20.00'' \<and>
   platformShare (Finite 100) = Fixed False 3000 \<and> render False 3000 = ''30.00''"
proof -
  have a: "\<bar>9 / 4 :: rat\<bar> < 10 ^ 21"
    by simp
  have b: "revenue batchB = Finite (9 / 4) \<and>
           js_mul (Finite (9 / 4)) (binary64 (3 / 10)) =
             Finite (6079859496950169 / 9007199254740992) \<and>
           platformShare (Finite (9 / 4)) = Fixed False 67"
    by code_simp
  have c: "\<not> (6079859496950169 / 9007199254740992 :: rat) < 0"
    by simp
  note inst = revenue_shares [of "Finite (9 / 4)" "9 / 4"]
  from inst a obtain y m where
    y: "js_mul (Finite (9 / 4)) (binary64 (3 / 10)) = Finite y"
      "\<bar>y - 9 / 4 * (3 / 10)\<bar> \<le> \<bar>9 / 4 :: rat\<bar> / 2 ^ 53 + 2 powi (- 1075)"
      "platformShare (Finite (9 / 4)) = Fixed (y < 0) m" "rounds_half_up \<bar>y\<bar> m"
    by blast
  from y(1) b have y': "y = 6079859496950169 / 9007199254740992"
    by (simp only: jsnum.inject)
  from y(3) b have m': "m = 67"
    by (simp only: fixed.inject)
  have d: "two_decimals (Finite (6079859496950169 / 9007199254740992)) (Fixed False 67)"
    using inst b by (simp only:)
  show ?thesis
    using a b d y(2,4) [unfolded y' m'] inst by blast
qed

text \<open>
  Three revenues for which the cell is not the exact product rounded half up to two
  decimal places. For 2.25 the exact \<open>2.25 * 0.3 = 0.675\<close> rounds half up to 0.68; the
  product of Numbers lies just below it and the cell shows 0.67. For -0.625 the exact
  \<open>-0.625 * 0.2 = -0.125\<close> rounds half up to -0.12; the cell rounds the magnitude and
  shows -0.13. For \<open>10\<^sup>2\<^sup>2\<close> the cell has no two decimal places: it is the product
  \<open>2 * 10\<^sup>2\<^sup>1\<close> as \<open>ToString\<close> prints it.
\<close>

theorem revenue_shares_counterexample:
  "platformShare (Finite (9 / 4)) = Fixed False 67 \<and> rounds_half_up (9 / 4 * (3 / 10)) 68 \<and>
   teacherShare (Finite (- 5 / 8)) = Fixed True 13 \<and> rounds_half_up (- 5 / 8 * (2 / 10)) (- 12) \<and>
   teacherShare (Finite (10 ^ 22)) = Verbatim (Finite (2 * 10 ^ 21))"
  by code_simp

section \<open>Listing teachers\<close>

lemma updateOne_append:
  "i \<notin> teacher_id ` set pre \<Longrightarrow> teacher_id d = i \<Longrightarrow>
   updateOne i f (pre @ d # rest) = pre @ f d # rest"
  by (induction pre) auto

lemma earnings_cong:
  "Student db' = Student db \<Longrightarrow> Sales db' = Sales db \<Longrightarrow> earnings db' i = earnings db i"
  by (simp add: earnings_def studentsOf_def completedSales_def)

lemma completedSales_counted:
  "completedSales db (map student_id (studentsOf db i)) = countedSales db i"
  unfolding completedSales_def studentsOf_def countedSales_def
  by (rule filter_cong) (auto simp: image_iff)

lemma earnings_counted:
  "earnings db i = round2 (js_mul (sumAmounts (countedSales db i)) (binary64 (3 / 10)))"
  by (simp add: earnings_def Let_def completedSales_counted)

text \<open>The loop runs to its end exactly when none of its awaited calls throws.\<close>

lemma recompute_fst:
  "fst (recompute E ts db) \<longleftrightarrow>
     (\<forall>t \<in> set ts. \<not> throws E (ListStudentFind (teacher_id t)) \<and>
        \<not> throws E (ListSalesFind (teacher_id t)) \<and> \<not> throws E (ListSave (teacher_id t)))"
  by (induction ts arbitrary: db) (auto simp: Let_def)

text \<open>
  The loop invariant: the documents before the current one (\<open>pre\<close>) are already written,
  those from it on (\<open>ts\<close>) are as they were read. Students and sales never change, so
  neither does what \<open>earnings\<close> returns.
\<close>

lemma recompute_ok:
  "distinct (map teacher_id (pre @ ts)) \<Longrightarrow> Teacher db = pre @ ts \<Longrightarrow>
   recompute E ts db = (True, db') \<Longrightarrow>
   db' = db\<lparr>Teacher := pre @ map (\<lambda>t. t\<lparr>totalEarnings := earnings db (teacher_id t)\<rparr>) ts\<rparr>"
proof (induction ts arbitrary: pre db)
  case Nil
  then show ?case by simp
next
  case (Cons t ts)
  let ?t' = "t\<lparr>totalEarnings := earnings db (teacher_id t)\<rparr>"
  let ?db1 = "save ?t' db"
  from Cons.prems(3) have run: "recompute E ts ?db1 = (True, db')"
    by (simp add: Let_def split: if_splits)
  have notin: "teacher_id t \<notin> teacher_id ` set pre"
    using Cons.prems(1) by auto
  have T1: "Teacher ?db1 = (pre @ [?t']) @ ts"
    using Cons.prems(2) notin by (simp add: save_def updateOne_append)
  have d1: "distinct (map teacher_id ((pre @ [?t']) @ ts))"
    using Cons.prems(1) by simp
  have e1: "earnings ?db1 = earnings db"
    by (rule ext, rule earnings_cong) (simp_all add: save_def)
  have eq: "db' = ?db1\<lparr>Teacher := (pre @ [?t']) @
          map (\<lambda>t. t\<lparr>totalEarnings := earnings ?db1 (teacher_id t)\<rparr>) ts\<rparr>"
    by (rule Cons.IH [OF d1 T1 run])
  show ?case
    unfolding eq e1 by (simp add: save_def)
qed

lemma listTeachers_status:
  "status_code (fst (listTeachers E db)) = 200 \<longleftrightarrow>
     \<not> throws E ListFind \<and> fst (recompute E (Teacher db) db) \<and> \<not> throws E ListFindAgain"
  by (cases "recompute E (Teacher db) db") (auto simp: listTeachers_def split: bool.splits)

lemma listTeachers_200:
  assumes "distinct (map teacher_id (Teacher db))"
    and "status_code (fst (listTeachers E db)) = 200"
  shows "listTeachers E db =
     (Response 200
        (TeacherList (map (\<lambda>t. t\<lparr>totalEarnings := earnings db (teacher_id t)\<rparr>) (Teacher db))),
      db\<lparr>Teacher := map (\<lambda>t. t\<lparr>totalEarnings := earnings db (teacher_id t)\<rparr>) (Teacher db)\<rparr>)"
proof -
  obtain ok db' where r: "recompute E (Teacher db) db = (ok, db')"
    by (cases "recompute E (Teacher db) db")
  from assms(2) have nt: "\<not> throws E ListFind" "\<not> throws E ListFindAgain" and ok: "ok"
    using r by (simp_all add: listTeachers_status)
  have "db' = db\<lparr>Teacher := [] @ map (\<lambda>t. t\<lparr>totalEarnings := earnings db (teacher_id t)\<rparr>)
      (Teacher db)\<rparr>"
    by (rule recompute_ok [where pre = "[]"]) (use assms(1) r ok in simp_all)
  then show ?thesis
    using nt r ok by (simp add: listTeachers_def)
qed

lemma listTeachers_no_throw:
  "(\<And>c. \<not> throws E c) \<Longrightarrow> status_code (fst (listTeachers E db)) = 200"
  by (simp add: listTeachers_status recompute_fst)

lemma exampleStore_fields:
  "Teacher exampleStore = [jamie, priya]"
  "Batch exampleStore = [batchA, batchB, batchC]"
  "Student exampleStore = [asha, bo, chen]"
  "Sales exampleStore = [sale50, sale30, sale1000, sale70]"
  by (simp_all add: exampleStore_def)

lemma example_ids:
  "teacher_id jamie = 101" "teacher_id priya = 102"
  by (simp_all add: jamie_def priya_def)

lemma exampleStore_distinct: "distinct (map teacher_id (Teacher exampleStore))"
  by (simp add: exampleStore_fields example_ids)

lemma exampleEnv_no_throw: "\<not> throws exampleEnv c"
  by (simp add: exampleEnv_def)

lemma exampleEnv_cast:
  "castObjectId exampleEnv ''665f1c2a9b3e4d0012ab3101'' = Some 101"
  "castObjectId exampleEnv ''665f1c2a9b3e4d0012ab3102'' = Some 102"
  "castObjectId exampleEnv ''665f1c2a9b3e4d0012ab3109'' = Some 109"
  "castObjectId exampleEnv ''not-an-id'' = None"
  by (simp_all add: exampleEnv_def)

lemma example_counted:
  "countedSales exampleStore 101 = [sale50, sale30]"
  "countedSales exampleStore 102 = [sale30, sale70]"
  by (simp_all add: countedSales_def exampleStore_fields asha_def bo_def chen_def
        sale50_def sale30_def sale1000_def sale70_def)

lemma example_amounts:
  "amount sale50 = Finite 50" "amount sale30 = Finite 30" "amount sale70 = Finite 70"
  by (simp_all add: sale50_def sale30_def sale70_def)

lemma example_sums:
  "js_add (js_add (Finite 0) (Finite 50)) (Finite 30) = Finite 80 \<and>
   js_add (js_add (Finite 0) (Finite 30)) (Finite 70) = Finite 100"
  by code_simp

lemma example_rounded:
  "round2 (js_mul (Finite 80) (binary64 (3 / 10))) = Finite 24 \<and>
   round2 (js_mul (Finite 100) (binary64 (3 / 10))) = Finite 30"
  by code_simp

lemma example_earnings:
  "round2 (js_mul (sumAmounts (countedSales exampleStore 101)) (binary64 (3 / 10))) = Finite 24"
  "round2 (js_mul (sumAmounts (countedSales exampleStore 102)) (binary64 (3 / 10))) = Finite 30"
proof -
  have "sumAmounts (countedSales exampleStore 101) = Finite 80"
    by (simp only: example_counted sumAmounts_def foldl.simps example_amounts example_sums)
  then show "round2 (js_mul (sumAmounts (countedSales exampleStore 101)) (binary64 (3 / 10))) =
      Finite 24"
    by (simp only: example_rounded)
  have "sumAmounts (countedSales exampleStore 102) = Finite 100"
    by (simp only: example_counted sumAmounts_def foldl.simps example_amounts example_sums)
  then show "round2 (js_mul (sumAmounts (countedSales exampleStore 102)) (binary64 (3 / 10))) =
      Finite 30"
    by (simp only: example_rounded)
qed

lemma quarterStore_fields:
  "Teacher quarterStore = [jamie, priya]"
  "Student quarterStore = [asha, bo, chen]"
  "Sales quarterStore = [sale225, sale01, sale02]"
  by (simp_all add: quarterStore_def exampleStore_def)

lemma quarter_counted:
  "countedSales quarterStore 101 = [sale225]"
  "countedSales quarterStore 102 = [sale01, sale02]"
  by (simp_all add: countedSales_def quarterStore_fields asha_def bo_def chen_def
        sale225_def sale01_def sale02_def)

lemma quarter_amounts:
  "amount sale225 = Finite (9 / 4)" "amount sale01 = binary64 (1 / 10)"
  "amount sale02 = binary64 (2 / 10)"
  by (simp_all add: sale225_def sale01_def sale02_def)

lemma quarter_sums:
  "js_add (Finite 0) (Finite (9 / 4)) = Finite (9 / 4) \<and>
   js_add (js_add (Finite 0) (binary64 (1 / 10))) (binary64 (2 / 10)) =
     Finite (1351079888211149 / 4503599627370496)"
  by code_simp

lemma quarter_rounded:
  "round2 (js_mul (Finite (9 / 4)) (binary64 (3 / 10))) = binary64 (67 / 100) \<and>
   round2 (js_mul (Finite (1351079888211149 / 4503599627370496)) (binary64 (3 / 10))) =
     binary64 (9 / 100)"
  by code_simp

lemma quarter_earnings:
  "earnings quarterStore 101 = binary64 (67 / 100)"
  "earnings quarterStore 102 = binary64 (9 / 100)"
proof -
  have "sumAmounts (countedSales quarterStore 101) = Finite (9 / 4)"
    by (simp only: quarter_counted sumAmounts_def foldl.simps quarter_amounts quarter_sums)
  then show "earnings quarterStore 101 = binary64 (67 / 100)"
    by (simp only: earnings_counted quarter_rounded)
  have "sumAmounts (countedSales quarterStore 102) = Finite (1351079888211149 / 4503599627370496)"
    by (simp only: quarter_counted sumAmounts_def foldl.simps quarter_amounts quarter_sums)
  then show "earnings quarterStore 102 = binary64 (9 / 100)"
    by (simp only: earnings_counted quarter_rounded)
qed

lemma quarter_listing:
  "listTeachers exampleEnv quarterStore =
     (Response 200 (TeacherList [jamie\<lparr>totalEarnings := binary64 (67 / 100)\<rparr>,
                                priya\<lparr>totalEarnings := binary64 (9 / 100)\<rparr>]),
      quarterStore\<lparr>Teacher := [jamie\<lparr>totalEarnings := binary64 (67 / 100)\<rparr>,
                               priya\<lparr>totalEarnings := binary64 (9 / 100)\<rparr>]\<rparr>)"
proof -
  have d: "distinct (map teacher_id (Teacher quarterStore))"
    by (simp add: quarterStore_fields example_ids)
  have s: "status_code (fst (listTeachers exampleEnv quarterStore)) = 200"
    using exampleEnv_no_throw by (rule listTeachers_no_throw)
  show ?thesis
    unfolding listTeachers_200 [OF d s]
    by (simp add: quarterStore_fields example_ids quarter_earnings)
qed

lemma sumAmounts_amounts: "sumAmounts sales = foldl js_add (Finite 0) (map amount sales)"
  by (simp add: sumAmounts_def foldl_map)

text \<open>
  Claim C1, as the code has it. In a store whose teachers have distinct ids, when no
  awaited call throws, the listing answers 200 with the teachers as stored afterwards,
  and each stored teacher is as before but for \<open>totalEarnings\<close>. Let \<open>S\<close> be the sum of
  Numbers, from 0 and in storage order, of the amounts of the sales counted for the
  teacher (those of a student whose \<open>teachers\<close> list holds the teacher's id and with
  status \<open>completed\<close>, and no other sale), and \<open>P\<close> the product of Numbers \<open>S * 0.3\<close>. When
  \<open>P\<close> is finite and below \<open>10\<^sup>2\<^sup>1\<close> in magnitude, \<open>totalEarnings\<close> is the Number nearest
  to the magnitude of \<open>P\<close> rounded to two decimal places, half up, with the sign of \<open>P\<close>;
  otherwise it is \<open>P\<close>.
\<close>

theorem listTeachers_recomputes_earnings:
  assumes "distinct (map teacher_id (Teacher db))" and "\<And>c. \<not> throws E c"
  shows "\<exists>ts'. listTeachers E db = (Response 200 (TeacherList ts'), db\<lparr>Teacher := ts'\<rparr>) \<and>
           list_all2
             (\<lambda>t t'. \<exists>v. t' = t\<lparr>totalEarnings := v\<rparr> \<and>
                stored_rounding
                  (js_mul (foldl js_add (Finite 0) (map amount (countedSales db (teacher_id t))))
                     (binary64 (3 / 10)))
                  v)
             (Teacher db) ts'"
proof -
  let ?f = "\<lambda>t. t\<lparr>totalEarnings := earnings db (teacher_id t)\<rparr>"
  have "status_code (fst (listTeachers E db)) = 200"
    using assms(2) by (rule listTeachers_no_throw)
  from listTeachers_200 [OF assms(1) this]
  have run: "listTeachers E db =
      (Response 200 (TeacherList (map ?f (Teacher db))), db\<lparr>Teacher := map ?f (Teacher db)\<rparr>)" .
  have each: "\<exists>v. ?f t = t\<lparr>totalEarnings := v\<rparr> \<and>
                stored_rounding
                  (js_mul (foldl js_add (Finite 0) (map amount (countedSales db (teacher_id t))))
                     (binary64 (3 / 10)))
                  v" for t
  proof -
    have "stored_rounding
            (js_mul (foldl js_add (Finite 0) (map amount (countedSales db (teacher_id t))))
               (binary64 (3 / 10)))
            (earnings db (teacher_id t))"
      unfolding earnings_counted sumAmounts_amounts by (rule round2_stored_rounding)
    then show ?thesis by blast
  qed
  have "list_all2
          (\<lambda>t t'. \<exists>v. t' = t\<lparr>totalEarnings := v\<rparr> \<and>
             stored_rounding
               (js_mul (foldl js_add (Finite 0) (map amount (countedSales db (teacher_id t))))
                  (binary64 (3 / 10)))
               v)
          (Teacher db) (map ?f (Teacher db))"
    unfolding list_all2_map2 by (rule list_all2_refl) (rule each)
  then show ?thesis using run by blast
qed

text \<open>
  In the sample store teacher 101 has two students with completed sales of 50 and 30
  and a pending sale of 1000: the listing stores 24. Teacher 102 has completed sales of
  30 and 70: the listing stores 30. In \<open>quarterStore\<close> the one sale of 2.25 stores 0.67
  for teacher 101; the sales of 0.1 and 0.2 sum to the Number 0.30000000000000004 and
  store 0.09 for teacher 102.
\<close>

theorem listTeachers_recomputes_earnings_example:
  "distinct (map teacher_id (Teacher exampleStore)) \<and> (\<forall>c. \<not> throws exampleEnv c) \<and>
   fst (listTeachers exampleEnv exampleStore) =
     Response 200 (TeacherList [jamie\<lparr>totalEarnings := Finite 24\<rparr>,
                                priya\<lparr>totalEarnings := Finite 30\<rparr>]) \<and>
   Teacher (snd (listTeachers exampleEnv exampleStore)) =
     [jamie\<lparr>totalEarnings := Finite 24\<rparr>, priya\<lparr>totalEarnings := Finite 30\<rparr>] \<and>
   distinct (map teacher_id (Teacher quarterStore)) \<and>
   foldl js_add (Finite 0) (map amount (countedSales quarterStore 102)) =
     Finite (1351079888211149 / 4503599627370496) \<and>
   fst (listTeachers exampleEnv quarterStore) =
     Response 200 (TeacherList [jamie\<lparr>totalEarnings := binary64 (67 / 100)\<rparr>,
                                priya\<lparr>totalEarnings := binary64 (9 / 100)\<rparr>]) \<and>
   Teacher (snd (listTeachers exampleEnv quarterStore)) =
     [jamie\<lparr>totalEarnings := binary64 (67 / 100)\<rparr>, priya\<lparr>totalEarnings := binary64 (9 / 100)\<rparr>] \<and>
   stored_rounding (Finite (6079859496950169 / 9007199254740992)) (binary64 (67 / 100))"
proof -
  have run: "listTeachers exampleEnv exampleStore =
     (Response 200 (TeacherList [jamie\<lparr>totalEarnings := Finite 24\<rparr>,
                                priya\<lparr>totalEarnings := Finite 30\<rparr>]),
      exampleStore\<lparr>Teacher := [jamie\<lparr>totalEarnings := Finite 24\<rparr>,
                              priya\<lparr>totalEarnings := Finite 30\<rparr>]\<rparr>)"
    unfolding listTeachers_200 [OF exampleStore_distinct
        listTeachers_no_throw [of exampleEnv, OF exampleEnv_no_throw]]
    by (simp add: exampleStore_fields example_ids example_earnings earnings_counted)
  have d: "distinct (map teacher_id (Teacher quarterStore))"
    by (simp add: quarterStore_fields example_ids)
  have s: "foldl js_add (Finite 0) (map amount (countedSales quarterStore 102)) =
     Finite (1351079888211149 / 4503599627370496)"
    by (simp only: quarter_counted list.map foldl.simps quarter_amounts quarter_sums)
  have p: "js_mul (foldl js_add (Finite 0) (map amount (countedSales quarterStore 101)))
             (binary64 (3 / 10)) = Finite (6079859496950169 / 9007199254740992)"
  proof -
    have "foldl js_add (Finite 0) (map amount (countedSales quarterStore 101)) = Finite (9 / 4)"
      by (simp only: quarter_counted list.map foldl.simps quarter_amounts quarter_sums)
    moreover have "js_mul (Finite (9 / 4)) (binary64 (3 / 10)) =
        Finite (6079859496950169 / 9007199254740992)"
      by code_simp
    ultimately show ?thesis by (simp only:)
  qed
  from listTeachers_recomputes_earnings [of quarterStore exampleEnv, OF d exampleEnv_no_throw]
  obtain ts' where ts': "listTeachers exampleEnv quarterStore =
        (Response 200 (TeacherList ts'), quarterStore\<lparr>Teacher := ts'\<rparr>)"
    and all: "list_all2
             (\<lambda>t t'. \<exists>v. t' = t\<lparr>totalEarnings := v\<rparr> \<and>
                stored_rounding
                  (js_mul (foldl js_add (Finite 0)
                     (map amount (countedSales quarterStore (teacher_id t))))
                     (binary64 (3 / 10)))
                  v)
             (Teacher quarterStore) ts'"
    by blast
  from ts' have "ts' = [jamie\<lparr>totalEarnings := binary64 (67 / 100)\<rparr>,
                        priya\<lparr>totalEarnings := binary64 (9 / 100)\<rparr>]"
    unfolding quarter_listing by simp
  with all have "\<exists>v. jamie\<lparr>totalEarnings := binary64 (67 / 100)\<rparr> = jamie\<lparr>totalEarnings := v\<rparr> \<and>
      stored_rounding
        (js_mul (foldl js_add (Finite 0) (map amount (countedSales quarterStore 101)))
           (binary64 (3 / 10))) v"
    by (simp add: quarterStore_fields example_ids)
  then have r: "stored_rounding (Finite (6079859496950169 / 9007199254740992))
      (binary64 (67 / 100))"
    unfolding p by (auto simp: jamie_def)
  show ?thesis
    using run d s r exampleStore_distinct exampleEnv_no_throw
    unfolding quarter_listing by simp
qed

text \<open>
  In \<open>quarterStore\<close> the only sale counted for teacher 101 is one of 2.25. The exact
  \<open>0.30 * 2.25 = 0.675\<close> rounds half up to 0.68; the listing stores the Number 0.67.
\<close>

theorem listTeachers_recomputes_earnings_counterexample:
  "map amount (countedSales quarterStore 101) = [Finite (9 / 4)] \<and>
   rounds_half_up (3 / 10 * (9 / 4)) 68 \<and>
   map totalEarnings (Teacher (snd (listTeachers exampleEnv quarterStore))) =
     [binary64 (67 / 100), binary64 (9 / 100)] \<and>
   binary64 (67 / 100) \<noteq> binary64 (68 / 100)"
proof -
  have a: "map amount (countedSales quarterStore 101) = [Finite (9 / 4)]"
    by (simp only: quarter_counted list.map quarter_amounts)
  have b: "rounds_half_up (3 / 10 * (9 / 4)) 68"
    by (simp add: rounds_half_up_def)
  have c: "binary64 (67 / 100) \<noteq> binary64 (68 / 100)"
    by code_simp
  show ?thesis
    using a b c unfolding quarter_listing by simp
qed

text \<open>
  Claim C6. In a store whose teachers have distinct ids, two listings in a row, neither
  with a call that throws, give the same answer, and the second leaves the store as the
  first left it: every teacher has the same \<open>totalEarnings\<close> after both.
\<close>

theorem listTeachers_idempotent:
  assumes "distinct (map teacher_id (Teacher db))"
    and "\<And>c. \<not> throws E1 c" and "\<And>c. \<not> throws E2 c"
  shows "fst (listTeachers E2 (snd (listTeachers E1 db))) = fst (listTeachers E1 db) \<and>
         snd (listTeachers E2 (snd (listTeachers E1 db))) = snd (listTeachers E1 db) \<and>
         status_code (fst (listTeachers E1 db)) = 200"
proof -
  let ?f = "\<lambda>d t. t\<lparr>totalEarnings := earnings d (teacher_id t)\<rparr>"
  let ?db1 = "db\<lparr>Teacher := map (?f db) (Teacher db)\<rparr>"
  have s1: "status_code (fst (listTeachers E1 db)) = 200"
    using assms(2) by (rule listTeachers_no_throw)
  have r1: "listTeachers E1 db = (Response 200 (TeacherList (map (?f db) (Teacher db))), ?db1)"
    by (rule listTeachers_200 [OF assms(1) s1])
  have d1: "distinct (map teacher_id (Teacher ?db1))"
    using assms(1) by (simp add: comp_def)
  have s2: "status_code (fst (listTeachers E2 ?db1)) = 200"
    using assms(3) by (rule listTeachers_no_throw)
  have e: "earnings ?db1 i = earnings db i" for i
    by (rule earnings_cong) simp_all
  have r2: "listTeachers E2 ?db1 =
     (Response 200 (TeacherList (map (?f ?db1) (Teacher ?db1))),
      ?db1\<lparr>Teacher := map (?f ?db1) (Teacher ?db1)\<rparr>)"
    by (rule listTeachers_200 [OF d1 s2])
  have m: "map (?f ?db1) (Teacher ?db1) = map (?f db) (Teacher db)"
    by (simp add: e comp_def)
  show ?thesis
    unfolding r1 using r2 unfolding m by simp
qed

theorem listTeachers_idempotent_example:
  "distinct (map teacher_id (Teacher exampleStore)) \<and> (\<forall>c. \<not> throws exampleEnv c) \<and>
   fst (listTeachers exampleEnv (snd (listTeachers exampleEnv exampleStore))) =
     fst (listTeachers exampleEnv exampleStore) \<and>
   snd (listTeachers exampleEnv (snd (listTeachers exampleEnv exampleStore))) =
     snd (listTeachers exampleEnv exampleStore)"
  using exampleStore_distinct exampleEnv_no_throw
    listTeachers_idempotent
      [of exampleStore exampleEnv exampleEnv, OF exampleStore_distinct exampleEnv_no_throw
         exampleEnv_no_throw]
  by blast

text \<open>
  Claim C8. If the save of the recomputed \<open>totalEarnings\<close> of any one teacher of the
  store throws, the listing answers 500 with the message of a failure and no list of
  teachers.
\<close>

theorem listTeachers_save_failure:
  assumes "t \<in> set (Teacher db)" and "throws E (ListSave (teacher_id t))"
  shows "fst (listTeachers E db) = Response 500 (Message ''Failed to fetch teachers'')"
proof -
  have "\<not> fst (recompute E (Teacher db) db)"
    using assms by (auto simp: recompute_fst)
  then show ?thesis
    by (cases "recompute E (Teacher db) db") (auto simp: listTeachers_def)
qed

theorem listTeachers_save_failure_example:
  "priya \<in> set (Teacher exampleStore) \<and> throws failingEnv (ListSave (teacher_id priya)) \<and>
   fst (listTeachers failingEnv exampleStore) =
     Response 500 (Message ''Failed to fetch teachers'')"
proof -
  have a: "priya \<in> set (Teacher exampleStore)"
    by (simp add: exampleStore_fields)
  have b: "throws failingEnv (ListSave (teacher_id priya))"
    by (simp add: failingEnv_def example_ids)
  show ?thesis
    using a b listTeachers_save_failure [OF a b] by blast
qed

section \<open>Deleting a teacher\<close>

lemma findById_None: "findById i ds = None \<longleftrightarrow> i \<notin> teacher_id ` set ds"
  by (auto simp: findById_def find_None_iff)

lemma deleteOne_ids:
  "distinct (map teacher_id ds) \<Longrightarrow> i \<notin> teacher_id ` set (deleteOne i ds)"
  by (induction ds) auto

lemma unsetTeacher_clean: "teacher (unsetTeacher i b) \<noteq> Some i"
  by (simp add: unsetTeacher_def)

lemma pullTeacher_clean: "i \<notin> set (teachers (pullTeacher i s))"
  by (simp add: pullTeacher_def)

lemma deleteTeacher_200:
  assumes "castObjectId E ident = Some i" and "i \<in> teacher_id ` set (Teacher db)"
    and "\<not> throws E DeleteFindByIdAndDelete" and "\<not> throws E DeleteBatchUpdateMany"
    and "\<not> throws E DeleteStudentUpdateMany"
  shows "deleteTeacher E db ident =
     (Response 200 (Message ''Teacher deleted and references cleaned''),
      db\<lparr>Teacher := deleteOne i (Teacher db), Batch := map (unsetTeacher i) (Batch db),
         Student := map (pullTeacher i) (Student db)\<rparr>)"
proof -
  from assms(2) obtain t where "findById i (Teacher db) = Some t"
    using findById_None [of i "Teacher db"] by (cases "findById i (Teacher db)") auto
  then show ?thesis
    using assms by (simp add: deleteTeacher_def Let_def)
qed

lemma deleteTeacher_404:
  assumes "castObjectId E ident = Some i" and "i \<notin> teacher_id ` set (Teacher db)"
    and "\<not> throws E DeleteFindByIdAndDelete"
  shows "deleteTeacher E db ident = (Response 404 (ErrorMessage ''Teacher not found''), db)"
  using assms findById_None [of i "Teacher db"] by (simp add: deleteTeacher_def)

lemma example_students:
  "pullTeacher 101 asha = asha\<lparr>teachers := []\<rparr>"
  "pullTeacher 101 bo = bo\<lparr>teachers := [102]\<rparr>"
  "pullTeacher 101 chen = chen"
  by (simp_all add: pullTeacher_def asha_def bo_def chen_def)

lemma example_batches:
  "unsetTeacher 101 batchA = batchA\<lparr>teacher := None\<rparr>"
  "unsetTeacher 101 batchB = batchB"
  "unsetTeacher 101 batchC = batchC"
  by (simp_all add: unsetTeacher_def batchA_def batchB_def batchC_def)

lemma example_delete:
  "deleteTeacher exampleEnv exampleStore ''665f1c2a9b3e4d0012ab3101'' =
     (Response 200 (Message ''Teacher deleted and references cleaned''),
      exampleStore\<lparr>Teacher := [priya],
                    Batch := [batchA\<lparr>teacher := None\<rparr>, batchB, batchC],
                    Student := [asha\<lparr>teachers := []\<rparr>, bo\<lparr>teachers := [102]\<rparr>, chen]\<rparr>)"
proof -
  have "101 \<in> teacher_id ` set (Teacher exampleStore)"
    by (simp add: exampleStore_fields example_ids)
  from deleteTeacher_200 [OF exampleEnv_cast(1) this exampleEnv_no_throw exampleEnv_no_throw
      exampleEnv_no_throw]
  show ?thesis
    by (simp add: exampleStore_fields example_ids example_students example_batches)
qed

text \<open>
  Claim C2. When the id is well formed, a teacher with it is stored and no awaited call
  throws, the deletion answers 200, and afterwards no batch has the id as \<open>teacher\<close> and
  no student has it in \<open>teachers\<close>; the batches and the students are the same documents
  as before, by their ids and in their order.
\<close>

theorem deleteTeacher_cleans_references:
  assumes "castObjectId E ident = Some i" and "i \<in> teacher_id ` set (Teacher db)"
    and "\<And>c. \<not> throws E c"
  shows "status_code (fst (deleteTeacher E db ident)) = 200 \<and>
         (\<forall>b \<in> set (Batch (snd (deleteTeacher E db ident))). teacher b \<noteq> Some i) \<and>
         (\<forall>s \<in> set (Student (snd (deleteTeacher E db ident))). i \<notin> set (teachers s)) \<and>
         map batch_id (Batch (snd (deleteTeacher E db ident))) = map batch_id (Batch db) \<and>
         map student_id (Student (snd (deleteTeacher E db ident))) = map student_id (Student db)"
proof -
  have bid: "batch_id (unsetTeacher i b) = batch_id b" for b
    by (simp add: unsetTeacher_def)
  have sid: "student_id (pullTeacher i s) = student_id s" for s
    by (simp add: pullTeacher_def)
  show ?thesis
    unfolding deleteTeacher_200 [OF assms(1,2) assms(3) assms(3) assms(3)]
    by (simp add: unsetTeacher_clean pullTeacher_clean bid sid comp_def)
qed

theorem deleteTeacher_cleans_references_example:
  "castObjectId exampleEnv ''665f1c2a9b3e4d0012ab3101'' = Some 101 \<and>
   101 \<in> teacher_id ` set (Teacher exampleStore) \<and> (\<forall>c. \<not> throws exampleEnv c) \<and>
   status_code (fst (deleteTeacher exampleEnv exampleStore ''665f1c2a9b3e4d0012ab3101'')) = 200 \<and>
   map teacher (Batch (snd (deleteTeacher exampleEnv exampleStore ''665f1c2a9b3e4d0012ab3101''))) =
     [None, Some 102, None] \<and>
   map teachers (Student (snd (deleteTeacher exampleEnv exampleStore ''665f1c2a9b3e4d0012ab3101''))) =
     [[], [102], [102]]"
proof -
  have a: "101 \<in> teacher_id ` set (Teacher exampleStore)"
    by (simp add: exampleStore_fields example_ids)
  have b: "map teacher (Batch (snd (deleteTeacher exampleEnv exampleStore
             ''665f1c2a9b3e4d0012ab3101''))) = [None, Some 102, None]"
    unfolding example_delete by (simp add: batchB_def batchC_def)
  have c: "map teachers (Student (snd (deleteTeacher exampleEnv exampleStore
             ''665f1c2a9b3e4d0012ab3101''))) = [[], [102], [102]]"
    unfolding example_delete by (simp add: chen_def)
  show ?thesis
    using a b c exampleEnv_cast(1) exampleEnv_no_throw
      deleteTeacher_cleans_references [OF exampleEnv_cast(1) a exampleEnv_no_throw]
    by blast
qed

text \<open>
  Claim C5. For a well-formed id, when the lookup does not throw: if no stored teacher
  has the id, the deletion answers 404 and the store is as before, teachers, batches,
  students and sales. And if the store is what a deletion of the same id, answered 200,
  left of a store whose teachers had distinct ids, the deletion answers 404 and changes
  nothing.
\<close>

theorem deleteTeacher_not_found:
  assumes "castObjectId E ident = Some i" and "\<not> throws E DeleteFindByIdAndDelete"
  shows "(i \<notin> teacher_id ` set (Teacher db) \<longrightarrow>
            deleteTeacher E db ident = (Response 404 (ErrorMessage ''Teacher not found''), db)) \<and>
         (distinct (map teacher_id (Teacher db0)) \<and> castObjectId E0 ident = Some i \<and>
          status_code (fst (deleteTeacher E0 db0 ident)) = 200 \<and>
          db = snd (deleteTeacher E0 db0 ident) \<longrightarrow>
            deleteTeacher E db ident = (Response 404 (ErrorMessage ''Teacher not found''), db))"
proof (intro conjI impI)
  assume "i \<notin> teacher_id ` set (Teacher db)"
  then show "deleteTeacher E db ident = (Response 404 (ErrorMessage ''Teacher not found''), db)"
    by (rule deleteTeacher_404 [OF assms(1) _ assms(2)])
next
  assume a: "distinct (map teacher_id (Teacher db0)) \<and> castObjectId E0 ident = Some i \<and>
          status_code (fst (deleteTeacher E0 db0 ident)) = 200 \<and>
          db = snd (deleteTeacher E0 db0 ident)"
  then have "Teacher db = deleteOne i (Teacher db0)"
    by (auto simp: deleteTeacher_def Let_def split: option.splits if_splits)
  then have "i \<notin> teacher_id ` set (Teacher db)"
    using a deleteOne_ids [of "Teacher db0" i] by simp
  then show "deleteTeacher E db ident = (Response 404 (ErrorMessage ''Teacher not found''), db)"
    by (rule deleteTeacher_404 [OF assms(1) _ assms(2)])
qed

theorem deleteTeacher_not_found_example:
  "castObjectId exampleEnv ''665f1c2a9b3e4d0012ab3109'' = Some 109 \<and>
   \<not> throws exampleEnv DeleteFindByIdAndDelete \<and>
   109 \<notin> teacher_id ` set (Teacher exampleStore) \<and>
   deleteTeacher exampleEnv exampleStore ''665f1c2a9b3e4d0012ab3109'' =
     (Response 404 (ErrorMessage ''Teacher not found''), exampleStore) \<and>
   castObjectId exampleEnv ''665f1c2a9b3e4d0012ab3101'' = Some 101 \<and>
   distinct (map teacher_id (Teacher exampleStore)) \<and>
   status_code (fst (deleteTeacher exampleEnv exampleStore ''665f1c2a9b3e4d0012ab3101'')) = 200 \<and>
   deleteTeacher exampleEnv
       (snd (deleteTeacher exampleEnv exampleStore ''665f1c2a9b3e4d0012ab3101''))
       ''665f1c2a9b3e4d0012ab3101'' =
     (Response 404 (ErrorMessage ''Teacher not found''),
      snd (deleteTeacher exampleEnv exampleStore ''665f1c2a9b3e4d0012ab3101''))"
proof -
  have a: "109 \<notin> teacher_id ` set (Teacher exampleStore)"
    by (simp add: exampleStore_fields example_ids)
  have b: "status_code (fst (deleteTeacher exampleEnv exampleStore
             ''665f1c2a9b3e4d0012ab3101'')) = 200"
    unfolding example_delete by simp
  show ?thesis
    using a b exampleEnv_cast(1,3) exampleStore_distinct
      exampleEnv_no_throw [of DeleteFindByIdAndDelete]
      deleteTeacher_not_found [OF exampleEnv_cast(3) exampleEnv_no_throw,
        of exampleStore exampleStore exampleEnv]
      deleteTeacher_not_found [OF exampleEnv_cast(1) exampleEnv_no_throw,
        of "snd (deleteTeacher exampleEnv exampleStore ''665f1c2a9b3e4d0012ab3101'')"
           exampleStore exampleEnv]
    by blast
qed

text \<open>
  Claim C9. For a well-formed id, whatever the deletion answers: each batch afterwards
  is the batch before, or the batch before had the id as \<open>teacher\<close> and differs only in
  having no \<open>teacher\<close>; each student afterwards is the student before, or the student
  before had the id in \<open>teachers\<close> and differs only in \<open>teachers\<close>, from which the id is
  removed; the sales are as before.
\<close>

theorem deleteTeacher_frame:
  assumes "castObjectId E ident = Some i"
  shows "list_all2 (\<lambda>b b'. b' = b \<or> teacher b = Some i \<and> b' = b\<lparr>teacher := None\<rparr>)
           (Batch db) (Batch (snd (deleteTeacher E db ident))) \<and>
         list_all2 (\<lambda>s s'. s' = s \<or> i \<in> set (teachers s) \<and>
                      s' = s\<lparr>teachers := removeAll i (teachers s)\<rparr>)
           (Student db) (Student (snd (deleteTeacher E db ident))) \<and>
         Sales (snd (deleteTeacher E db ident)) = Sales db"
proof -
  have B: "list_all2 (\<lambda>b b'. b' = b \<or> teacher b = Some i \<and> b' = b\<lparr>teacher := None\<rparr>)
             bs (map (unsetTeacher i) bs)" for bs
    by (induction bs) (auto simp: unsetTeacher_def)
  have S: "list_all2 (\<lambda>s s'. s' = s \<or> i \<in> set (teachers s) \<and>
                      s' = s\<lparr>teachers := removeAll i (teachers s)\<rparr>)
             ss (map (pullTeacher i) ss)" for ss
    by (induction ss) (auto simp: pullTeacher_def)
  have B0: "list_all2 (\<lambda>b b'. b' = b \<or> teacher b = Some i \<and> b' = b\<lparr>teacher := None\<rparr>) bs bs"
    for bs
    by (simp add: list_all2_same)
  have S0: "list_all2 (\<lambda>s s'. s' = s \<or> i \<in> set (teachers s) \<and>
                      s' = s\<lparr>teachers := removeAll i (teachers s)\<rparr>) ss ss" for ss
    by (simp add: list_all2_same)
  show ?thesis
    using assms by (simp add: deleteTeacher_def Let_def B S B0 S0 split: option.splits)
qed

theorem deleteTeacher_frame_example:
  "castObjectId exampleEnv ''665f1c2a9b3e4d0012ab3101'' = Some 101 \<and>
   Batch (snd (deleteTeacher exampleEnv exampleStore ''665f1c2a9b3e4d0012ab3101'')) =
     [batchA\<lparr>teacher := None\<rparr>, batchB, batchC] \<and>
   Student (snd (deleteTeacher exampleEnv exampleStore ''665f1c2a9b3e4d0012ab3101'')) =
     [asha\<lparr>teachers := []\<rparr>, bo\<lparr>teachers := [102]\<rparr>, chen] \<and>
   Sales (snd (deleteTeacher exampleEnv exampleStore ''665f1c2a9b3e4d0012ab3101'')) =
     Sales exampleStore"
proof -
  have a: "Batch (snd (deleteTeacher exampleEnv exampleStore ''665f1c2a9b3e4d0012ab3101'')) =
     [batchA\<lparr>teacher := None\<rparr>, batchB, batchC]"
    unfolding example_delete by simp
  have b: "Student (snd (deleteTeacher exampleEnv exampleStore ''665f1c2a9b3e4d0012ab3101'')) =
     [asha\<lparr>teachers := []\<rparr>, bo\<lparr>teachers := [102]\<rparr>, chen]"
    unfolding example_delete by simp
  show ?thesis
    using a b exampleEnv_cast(1)
      deleteTeacher_frame [OF exampleEnv_cast(1), of exampleStore]
    by blast
qed

section \<open>Creating and updating a teacher\<close>

text \<open>
  Claim C7. When the submitted email is that of a stored teacher and the lookup does not
  throw, the answer has status 400 and the store is as before: no teacher is added. When
  the four required fields are all present, the answer is the message that a teacher
  with this email already exists.
\<close>

theorem postTeacher_duplicate_email:
  assumes "req_email b = Some e" and "e \<in> email ` set (Teacher db)"
    and "\<not> throws E PostFindOne"
  shows "status_code (fst (postTeacher E db b)) = 400 \<and>
         snd (postTeacher E db b) = db \<and>
         (truthy (req_name b) \<and> truthy (req_email b) \<and> truthy (req_phone b) \<and>
          truthy (req_password b) \<longrightarrow>
            fst (postTeacher E db b) =
              Response 400 (Message ''Teacher with this email already exists''))"
proof -
  have "find (\<lambda>t. email t = e) (Teacher db) \<noteq> None"
    using assms(2) by (auto simp: find_None_iff)
  then show ?thesis
    using assms(1,3) by (simp add: postTeacher_def str_def)
qed

lemma sameEmailBody_fields:
  "req_email sameEmailBody = Some ''jamie.smith@example.com''"
  "truthy (req_name sameEmailBody)" "truthy (req_email sameEmailBody)"
  "truthy (req_phone sameEmailBody)" "truthy (req_password sameEmailBody)"
  by (simp_all add: sameEmailBody_def truthy_def)

lemma example_emails:
  "email jamie = ''jamie.smith@example.com''" "email priya = ''priya.nair@example.com''"
  by (simp_all add: jamie_def priya_def)

theorem postTeacher_duplicate_email_example:
  "req_email sameEmailBody = Some ''jamie.smith@example.com'' \<and>
   ''jamie.smith@example.com'' \<in> email ` set (Teacher exampleStore) \<and>
   \<not> throws exampleEnv PostFindOne \<and>
   truthy (req_name sameEmailBody) \<and> truthy (req_email sameEmailBody) \<and>
   truthy (req_phone sameEmailBody) \<and> truthy (req_password sameEmailBody) \<and>
   fst (postTeacher exampleEnv exampleStore sameEmailBody) =
     Response 400 (Message ''Teacher with this email already exists'') \<and>
   snd (postTeacher exampleEnv exampleStore sameEmailBody) = exampleStore"
proof -
  have a: "''jamie.smith@example.com'' \<in> email ` set (Teacher exampleStore)"
    by (simp add: exampleStore_fields example_emails)
  show ?thesis
    using a sameEmailBody_fields exampleEnv_no_throw [of PostFindOne]
      postTeacher_duplicate_email [OF sameEmailBody_fields(1) a exampleEnv_no_throw]
    by blast
qed







end
